theory Spec2Isabelle
  imports Main "HOL-Library.Sublist"
begin

section \<open>Errors and strings\<close>

text \<open>
  A Go \<open>error\<close> is a value with a message (\<open>err.Error()\<close>). \<open>Errorf\<close> is an error made
  by \<open>fmt.Errorf\<close>, \<open>errors.New\<close> or a collaborator; \<open>ErrorWithStatusCode\<close> is the wrapper of
  \<open>errors.NewErrorWithStatusCode\<close>, which keeps the message and adds an HTTP status.
  A function that returns \<open>error\<close> returns \<open>error option\<close> here (\<open>None\<close> is \<open>nil\<close>); one that
  returns a value and an error returns \<open>error + 'a\<close>.
\<close>

datatype error = Errorf string | ErrorWithStatusCode error nat

fun Error :: "error \<Rightarrow> string" where
  "Error (Errorf s) = s"
| "Error (ErrorWithStatusCode e code) = Error e"

definition StatusNotModified :: nat where
  "StatusNotModified = 304"

text \<open>\<open>strings.Contains(s, substr)\<close>: \<open>substr\<close> occurs in \<open>s\<close> as a contiguous run.\<close>

definition Contains :: "string \<Rightarrow> string \<Rightarrow> bool" where
  "Contains s substr = sublist substr s"

text \<open>\<open>syscall.EACCES.Error()\<close>, the text of errno 13 in the Linux error table.\<close>

definition EACCES_Error :: string where
  "EACCES_Error = ''permission denied''"

text \<open>\<open>fmt.Sprintf("%d", n)\<close>.\<close>

fun digits :: "nat \<Rightarrow> string" where
  "digits n = (if n < 10 then [''0123456789'' ! n]
               else digits (n div 10) @ [''0123456789'' ! (n mod 10)])"

definition Sprintf_d :: "int \<Rightarrow> string" where
  "Sprintf_d i = (if i < 0 then ''-'' @ digits (nat (- i)) else digits (nat i))"

definition quoted :: "string \<Rightarrow> string" where
  "quoted s = [CHR 0x27] @ s @ [CHR 0x27]"

section \<open>The daemon: containers, collaborators, effects\<close>

text \<open>
  The fields of \<open>container.Container\<close> that \<open>daemon/start.go\<close> and the package daemon
  of \<open>docker/flags.go\<close> read or assign. \<open>Networks\<close> is \<open>NetworkSettings.Networks\<close> (\<open>None\<close> is the nil map); \<open>RWLayer\<close> is the
  handle of the writable layer (\<open>None\<close> before \<open>setRWLayer\<close>); \<open>ExecCommands\<close> lists the
  registered exec configurations.
\<close>

record HostConfig =
  NetworkMode :: string

record Spec =
  Terminal :: bool

record Container =
  ID :: string
  Path :: string
  Root :: string
  ImageID :: string
  MountLabel :: string
  RWLayer :: "string option"
  BaseFS :: string
  HostConfig :: HostConfig
  Networks :: "string list option"
  Running :: bool
  Paused :: bool
  RemovalInProgress :: bool
  Dead :: bool
  ExitCode :: int
  ExecCommands :: "string list"

text \<open>
  Every call that leaves the source (a collaborator of the daemon, a method of the container
  whose body is elsewhere, a log line) is recorded, in order, in a trace of actions.
\<close>

datatype action =
    Lock
  | Unlock
  | Log_Warn string
  | Log_Error string
  | Call_GetContainer string
  | Call_setSecurityOptions
  | Call_setHostConfig
  | Call_ToDisk
  | Call_InitDNSHostConfig
  | Call_verifyContainerSettings
  | Call_adaptContainerSettings
  | Call_conditionalMountOnStart
  | Call_initializeNetworking
  | Call_createSpec
  | Call_RestartManager bool
  | Call_containerd_Create string Spec
  | Call_SetError error
  | Call_Reset bool
  | Call_LogContainerEvent string
  | Call_LogContainerEventWithAttributes string "(string \<times> string) list"
  | Call_releaseNetwork
  | Call_UnmountIpcMounts
  | Call_conditionalUnmountOnCleanup
  | Call_GetMountID string
  | Call_cleanupMountsByID string
  | Call_unregisterExecCommand string
  | Call_UnmountVolumes bool
  | Call_CancelAttachContext
  | Call_GetImage string
  | Call_mergeAndVerifyConfig
  | Call_newContainer string
  | Call_ContainerRm string bool
  | Call_imageStore_Get string
  | Call_CreateRWLayer string string string
  | Call_Register
  | Call_GetRootUIDGID
  | Call_MkdirAs string nat nat
  | Call_removeMountPoints bool
  | Call_createContainerPlatformSpecificSettings
  | Call_updateContainerNetworkSettings
  | Call_ToDiskLocking

text \<open>
  The collaborators themselves are not part of the sources: each is a parameter that gives
  the outcome of the call. \<open>setSecurityOptions\<close> (which sets the labels), \<open>setHostConfig\<close> (which
  stores the host configuration) and \<open>SetDefaultNetModeIfBlank\<close> also return the value that the
  source reads or stores afterwards; the others leave the modelled fields to the source.
  \<open>GOOS\<close> is \<open>runtime.GOOS\<close>.
\<close>

record Daemon =
  GOOS :: string
  GetContainer :: "string \<Rightarrow> error + Container"
  setSecurityOptions :: "Container \<Rightarrow> HostConfig option \<Rightarrow> error option \<times> Container"
  setHostConfig :: "Container \<Rightarrow> HostConfig option \<Rightarrow> error option \<times> Container"
  ToDisk :: "Container \<Rightarrow> error option"
  verifyContainerSettings :: "HostConfig \<Rightarrow> error option"
  adaptContainerSettings :: "HostConfig \<Rightarrow> error option"
  conditionalMountOnStart :: "Container \<Rightarrow> error option"
  SetDefaultNetModeIfBlank :: "HostConfig \<Rightarrow> HostConfig"
  initializeNetworking :: "Container \<Rightarrow> error option"
  createSpec :: "Container \<Rightarrow> error + Spec"
  containerd_Create :: "string \<Rightarrow> Spec \<Rightarrow> error option"
  conditionalUnmountOnCleanup :: "Container \<Rightarrow> error option"
  GetMountID :: "string \<Rightarrow> error + string"
  UnmountVolumes :: "Container \<Rightarrow> error option"
  GetImage :: "string \<Rightarrow> error + string"
  mergeAndVerifyConfig :: "string \<Rightarrow> string option \<Rightarrow> error option"
  newContainer :: "string \<Rightarrow> string \<Rightarrow> string \<Rightarrow> error + Container"
  ContainerRm :: "string \<Rightarrow> bool \<Rightarrow> error option"
  imageStore_Get :: "string \<Rightarrow> error + string"
  CreateRWLayer :: "string \<Rightarrow> string \<Rightarrow> string \<Rightarrow> error + string"
  Register :: "Container \<Rightarrow> error option"
  GetRootUIDGID :: "error + nat \<times> nat"
  MkdirAs :: "string \<Rightarrow> nat \<Rightarrow> nat \<Rightarrow> error option"
  removeMountPoints :: "Container \<Rightarrow> bool \<Rightarrow> error option"
  createContainerPlatformSpecificSettings :: "Container \<Rightarrow> error option"
  updateContainerNetworkSettings :: "Container \<Rightarrow> string list option \<Rightarrow> error option"
  ToDiskLocking :: "Container \<Rightarrow> error option"

section \<open>Cleanup (daemon/start.go)\<close>

text \<open>
  \<open>Cleanup\<close> has no result in the source; the model returns the trace of what it did.
\<close>

definition Cleanup :: "Daemon \<Rightarrow> Container \<Rightarrow> action list" where
  "Cleanup daemon container =
     [Call_releaseNetwork, Call_UnmountIpcMounts, Call_conditionalUnmountOnCleanup]
     @ (case conditionalUnmountOnCleanup daemon container of
          None \<Rightarrow> []
        | Some err \<Rightarrow>
            Call_GetMountID (ID container)
            # (case GetMountID daemon (ID container) of
                 Inr mountid \<Rightarrow> [Call_cleanupMountsByID mountid]
               | Inl err' \<Rightarrow> []))
     @ map Call_unregisterExecCommand (ExecCommands container)
     @ (if BaseFS container \<noteq> ''''
        then Call_UnmountVolumes False
             # (case UnmountVolumes daemon container of
                  None \<Rightarrow> []
                | Some err \<Rightarrow>
                    [Log_Warn (ID container @ '' cleanup: Failed to umount volumes: '' @ Error err)])
        else [])
     @ [Call_CancelAttachContext]"

section \<open>containerStart and ContainerStart (daemon/start.go)\<close>

text \<open>Lines 165 to 175: the two tests on the message of the error of the create call.\<close>

definition notFoundError :: "Container \<Rightarrow> error" where
  "notFoundError container =
     Errorf (''Container command '' @ quoted (Path container) @ '' not found or does not exist.'')"

definition notInvokedError :: "Container \<Rightarrow> error" where
  "notInvokedError container =
     Errorf (''Container command '' @ quoted (Path container) @ '' could not be invoked.'')"

definition classifyCreateError :: "Container \<Rightarrow> error \<Rightarrow> Container \<times> error" where
  "classifyCreateError container err =
     (let (container1, err1) =
            (if Contains (Error err) ''executable file not found'' \<or>
                Contains (Error err) ''no such file or directory'' \<or>
                Contains (Error err) ''system cannot find the file specified''
             then (container\<lparr>ExitCode := 127\<rparr>, notFoundError container)
             else (container, err))
      in if Contains (Error err1) EACCES_Error
         then (container1\<lparr>ExitCode := 126\<rparr>, notInvokedError container1)
         else (container1, err1))"

text \<open>
  The body of \<open>containerStart\<close> from line 134 on, that is, what runs between the registration
  of the deferred function and the return: the returned error, the container and the trace.
\<close>

definition containerStart_body :: "Daemon \<Rightarrow> Container \<Rightarrow> error option \<times> Container \<times> action list" where
  "containerStart_body daemon container =
     (case conditionalMountOnStart daemon container of
        Some err \<Rightarrow> (Some err, container, [Call_conditionalMountOnStart])
      | None \<Rightarrow>
          let container1 = container\<lparr>HostConfig := SetDefaultNetModeIfBlank daemon (HostConfig container)\<rparr>
          in (case initializeNetworking daemon container1 of
                Some err \<Rightarrow>
                  (Some err, container1, [Call_conditionalMountOnStart, Call_initializeNetworking])
              | None \<Rightarrow>
                  (case createSpec daemon container1 of
                     Inl err \<Rightarrow>
                       (Some err, container1,
                        [Call_conditionalMountOnStart, Call_initializeNetworking, Call_createSpec])
                   | Inr spec \<Rightarrow>
                       (case containerd_Create daemon (ID container1) spec of
                          None \<Rightarrow>
                            (None, container1,
                             [Call_conditionalMountOnStart, Call_initializeNetworking, Call_createSpec,
                              Call_RestartManager True, Call_containerd_Create (ID container1) spec])
                        | Some err \<Rightarrow>
                            let (container2, err2) = classifyCreateError container1 err
                            in (Some err2, container2,
                                [Call_conditionalMountOnStart, Call_initializeNetworking, Call_createSpec,
                                 Call_RestartManager True, Call_containerd_Create (ID container1) spec,
                                 Call_Reset False, Call_LogContainerEvent ''start''])))))"

text \<open>The deferred function of lines 114 to 129, run with the error being returned.\<close>

definition containerStart_deferred :: "Daemon \<Rightarrow> error option \<Rightarrow> Container \<Rightarrow> Container \<times> action list" where
  "containerStart_deferred daemon err container =
     (case err of
        None \<Rightarrow> (container, [])
      | Some e \<Rightarrow>
          let container1 = (if ExitCode container = 0 then container\<lparr>ExitCode := 128\<rparr> else container)
          in (container1,
              [Call_SetError e, Call_ToDisk]
              @ Cleanup daemon container1
              @ [Call_LogContainerEventWithAttributes ''die''
                   [(''exitCode'', Sprintf_d (ExitCode container1))]]))"

definition containerStart :: "Daemon \<Rightarrow> Container \<Rightarrow> error option \<times> Container \<times> action list" where
  "containerStart daemon container =
     (if Running container then (None, container, [Lock, Unlock])
      else if RemovalInProgress container \<or> Dead container
      then (Some (Errorf ''Container is marked for removal and cannot be started.''), container,
            [Lock, Unlock])
      else
        let (err, container1, tr) = containerStart_body daemon container;
            (container2, tr') = containerStart_deferred daemon err container1
        in (err, container2, [Lock] @ tr @ tr' @ [Unlock]))"

text \<open>Lines 71 to 85 of \<open>ContainerStart\<close>, reached with the trace \<open>tr\<close> of the lines before.\<close>

definition ContainerStart_verified ::
  "Daemon \<Rightarrow> Container \<Rightarrow> action list \<Rightarrow> error option \<times> Container option \<times> action list" where
  "ContainerStart_verified daemon container tr =
     (case verifyContainerSettings daemon (HostConfig container) of
        Some err \<Rightarrow> (Some err, Some container, tr @ [Call_verifyContainerSettings])
      | None \<Rightarrow>
          (case adaptContainerSettings daemon (HostConfig container) of
             Some err \<Rightarrow>
               (Some err, Some container,
                tr @ [Call_verifyContainerSettings, Call_adaptContainerSettings])
           | None \<Rightarrow>
               let (err, container1, tr') = containerStart daemon container
               in (err, Some container1,
                   tr @ [Call_verifyContainerSettings, Call_adaptContainerSettings] @ tr')))"

definition deprecatedHostConfig :: string where
  "deprecatedHostConfig =
     ''DEPRECATED: Setting host configuration options when the container starts is deprecated and will be removed in Docker 1.12''"

text \<open>
  \<open>ContainerStart\<close> returns the error, the container as it is left (\<open>None\<close> when the name
  resolves to no container) and the trace.
\<close>

definition ContainerStart ::
  "Daemon \<Rightarrow> string \<Rightarrow> HostConfig option \<Rightarrow> error option \<times> Container option \<times> action list" where
  "ContainerStart daemon name hostConfig =
     (case GetContainer daemon name of
        Inl err \<Rightarrow> (Some err, None, [Call_GetContainer name])
      | Inr container \<Rightarrow>
          if Paused container
          then (Some (Errorf ''Cannot start a paused container, try unpause instead.''),
                Some container, [Call_GetContainer name])
          else if Running container
          then (Some (ErrorWithStatusCode (Errorf ''Container already started'') StatusNotModified),
                Some container, [Call_GetContainer name])
          else if GOOS daemon \<noteq> ''windows''
          then
            (case hostConfig of
               None \<Rightarrow> ContainerStart_verified daemon container [Call_GetContainer name]
             | Some hc \<Rightarrow>
                 (case setSecurityOptions daemon container hostConfig of
                    (Some err, container1) \<Rightarrow>
                      (Some err, Some container1,
                       [Call_GetContainer name, Log_Warn deprecatedHostConfig, Call_setSecurityOptions])
                  | (None, container1) \<Rightarrow>
                      (case setHostConfig daemon container1 hostConfig of
                         (Some err, container2) \<Rightarrow>
                           (Some err, Some container2,
                            [Call_GetContainer name, Log_Warn deprecatedHostConfig,
                             Call_setSecurityOptions, Call_setHostConfig])
                       | (None, container2) \<Rightarrow>
                           if NetworkMode (HostConfig container) \<noteq> NetworkMode (HostConfig container2)
                           then
                             let container3 = container2\<lparr>Networks := None\<rparr>
                             in (case ToDisk daemon container3 of
                                   Some err \<Rightarrow>
                                     (Some err, Some container3,
                                      [Call_GetContainer name, Log_Warn deprecatedHostConfig,
                                       Call_setSecurityOptions, Call_setHostConfig, Call_ToDisk])
                                 | None \<Rightarrow>
                                     ContainerStart_verified daemon container3
                                       [Call_GetContainer name, Log_Warn deprecatedHostConfig,
                                        Call_setSecurityOptions, Call_setHostConfig, Call_ToDisk,
                                        Call_InitDNSHostConfig])
                           else
                             ContainerStart_verified daemon container2
                               [Call_GetContainer name, Log_Warn deprecatedHostConfig,
                                Call_setSecurityOptions, Call_setHostConfig, Call_InitDNSHostConfig])))
          else
            (if hostConfig \<noteq> None
             then (Some (Errorf ''Supplying a hostconfig on start is not supported. It should be supplied on create''),
                   Some container, [Call_GetContainer name])
             else ContainerStart_verified daemon container [Call_GetContainer name]))"


section \<open>create and setRWLayer (package daemon in docker/flags.go)\<close>

text \<open>
  The parameters of \<open>create\<close>: \<open>Image\<close> is \<open>params.Config.Image\<close>, \<open>ParamsHostConfig\<close> is
  \<open>params.HostConfig\<close>, and \<open>EndpointsConfig\<close> is \<open>None\<close> when \<open>params.NetworkingConfig\<close> is nil.
\<close>

record ContainerCreateConfig =
  Name :: string
  Image :: string
  ParamsHostConfig :: "HostConfig option"
  EndpointsConfig :: "string list option"

text \<open>The call of \<open>CreateRWLayer\<close> that ends \<open>setRWLayer\<close> (lines 721 to 727).\<close>

definition setRWLayer_create ::
  "Daemon \<Rightarrow> Container \<Rightarrow> string \<Rightarrow> action list \<Rightarrow> error option \<times> Container \<times> action list" where
  "setRWLayer_create daemon container layerID tr =
     (case CreateRWLayer daemon (ID container) layerID (MountLabel container) of
        Inl err \<Rightarrow>
          (Some err, container,
           tr @ [Call_CreateRWLayer (ID container) layerID (MountLabel container)])
      | Inr rwLayer \<Rightarrow>
          (None, container\<lparr>RWLayer := Some rwLayer\<rparr>,
           tr @ [Call_CreateRWLayer (ID container) layerID (MountLabel container)]))"

definition setRWLayer :: "Daemon \<Rightarrow> Container \<Rightarrow> error option \<times> Container \<times> action list" where
  "setRWLayer daemon container =
     (if ImageID container \<noteq> []
      then (case imageStore_Get daemon (ImageID container) of
              Inl err \<Rightarrow> (Some err, container, [Call_imageStore_Get (ImageID container)])
            | Inr layerID \<Rightarrow>
                setRWLayer_create daemon container layerID [Call_imageStore_Get (ImageID container)])
      else setRWLayer_create daemon container [] [])"

text \<open>
  The two deferred functions of \<open>create\<close>. A \<open>defer\<close> statement registers its function when
  control reaches it; the registered functions run, last registered first, when \<open>create\<close>
  returns, and both act only when the returned error is not nil.
\<close>

datatype deferred = Deferred_ContainerRm | Deferred_removeMountPoints

fun run_deferred :: "Daemon \<Rightarrow> error option \<Rightarrow> Container \<Rightarrow> deferred \<Rightarrow> action list" where
  "run_deferred daemon None container f = []"
| "run_deferred daemon (Some retErr) container Deferred_ContainerRm =
     Call_ContainerRm (ID container) True
     # (case ContainerRm daemon (ID container) True of
          None \<Rightarrow> []
        | Some err \<Rightarrow>
            [Log_Error (''Clean up Error! Cannot destroy container '' @ ID container @ '': '' @ Error err)])"
| "run_deferred daemon (Some retErr) container Deferred_removeMountPoints =
     Call_removeMountPoints True
     # (case removeMountPoints daemon container True of
          None \<Rightarrow> []
        | Some err \<Rightarrow> [Log_Error (Error err)])"

text \<open>
  The body of \<open>create\<close> in three parts. Each returns the error, the container, the trace and
  the deferred functions registered so far, in the order of registration.
  Lines 667 to 691, after the second \<open>defer\<close>:
\<close>

definition create_mounted ::
  "Daemon \<Rightarrow> ContainerCreateConfig \<Rightarrow> Container \<Rightarrow> error option \<times> action list" where
  "create_mounted daemon params container =
     (case createContainerPlatformSpecificSettings daemon container of
        Some err \<Rightarrow> (Some err, [Call_createContainerPlatformSpecificSettings])
      | None \<Rightarrow>
          (case updateContainerNetworkSettings daemon container (EndpointsConfig params) of
             Some err \<Rightarrow>
               (Some err,
                [Call_createContainerPlatformSpecificSettings, Call_updateContainerNetworkSettings])
           | None \<Rightarrow>
               (case ToDiskLocking daemon container of
                  Some err \<Rightarrow>
                    (Some err,
                     [Call_createContainerPlatformSpecificSettings, Call_updateContainerNetworkSettings,
                      Call_ToDiskLocking,
                      Log_Error (''Error saving new container to disk: '' @ Error err)])
                | None \<Rightarrow>
                    (None,
                     [Call_createContainerPlatformSpecificSettings, Call_updateContainerNetworkSettings,
                      Call_ToDiskLocking, Call_LogContainerEvent ''create'']))))"

text \<open>Lines 594 to 618, from the registration in the index of the daemon on:\<close>

definition create_register ::
  "Daemon \<Rightarrow> ContainerCreateConfig \<Rightarrow> Container \<Rightarrow>
     error option \<times> Container \<times> action list \<times> deferred list" where
  "create_register daemon params container =
     (case Register daemon container of
        Some err \<Rightarrow> (Some err, container, [Call_Register], [Deferred_ContainerRm])
      | None \<Rightarrow>
          (case GetRootUIDGID daemon of
             Inl err \<Rightarrow>
               (Some err, container, [Call_Register, Call_GetRootUIDGID], [Deferred_ContainerRm])
           | Inr (rootUID, rootGID) \<Rightarrow>
               (case MkdirAs daemon (Root container) rootUID rootGID of
                  Some err \<Rightarrow>
                    (Some err, container,
                     [Call_Register, Call_GetRootUIDGID, Call_MkdirAs (Root container) rootUID rootGID],
                     [Deferred_ContainerRm])
                | None \<Rightarrow>
                    (case setHostConfig daemon container (ParamsHostConfig params) of
                       (Some err, container1) \<Rightarrow>
                         (Some err, container1,
                          [Call_Register, Call_GetRootUIDGID,
                           Call_MkdirAs (Root container) rootUID rootGID, Call_setHostConfig],
                          [Deferred_ContainerRm])
                     | (None, container1) \<Rightarrow>
                         let (err, tr) = create_mounted daemon params container1
                         in (err, container1,
                             [Call_Register, Call_GetRootUIDGID,
                              Call_MkdirAs (Root container) rootUID rootGID, Call_setHostConfig] @ tr,
                             [Deferred_ContainerRm, Deferred_removeMountPoints])))))"

text \<open>
  Lines 543 to 590, from the merge of the configuration to the writable layer; \<open>img\<close> is the
  identifier of the image, \<open>None\<close> when no image was named.
\<close>

definition create_new ::
  "Daemon \<Rightarrow> ContainerCreateConfig \<Rightarrow> string option \<Rightarrow> action list \<Rightarrow>
     error option \<times> Container option \<times> action list \<times> deferred list" where
  "create_new daemon params img tr =
     (case mergeAndVerifyConfig daemon (Image params) img of
        Some err \<Rightarrow> (Some err, None, tr @ [Call_mergeAndVerifyConfig], [])
      | None \<Rightarrow>
          (case newContainer daemon (Name params) (Image params)
                  (case img of None \<Rightarrow> [] | Some imgID \<Rightarrow> imgID) of
             Inl err \<Rightarrow>
               (Some err, None, tr @ [Call_mergeAndVerifyConfig, Call_newContainer (Name params)], [])
           | Inr container \<Rightarrow>
               (case setSecurityOptions daemon container (ParamsHostConfig params) of
                  (Some err, container1) \<Rightarrow>
                    (Some err, Some container1,
                     tr @ [Call_mergeAndVerifyConfig, Call_newContainer (Name params),
                           Call_setSecurityOptions],
                     [Deferred_ContainerRm])
                | (None, container1) \<Rightarrow>
                    (case setRWLayer daemon container1 of
                       (Some err, container2, tr') \<Rightarrow>
                         (Some err, Some container2,
                          tr @ [Call_mergeAndVerifyConfig, Call_newContainer (Name params),
                                Call_setSecurityOptions] @ tr',
                          [Deferred_ContainerRm])
                     | (None, container2, tr') \<Rightarrow>
                         let (err, container3, tr'', ds) = create_register daemon params container2
                         in (err, Some container3,
                             tr @ [Call_mergeAndVerifyConfig, Call_newContainer (Name params),
                                   Call_setSecurityOptions] @ tr' @ tr'',
                             ds)))))"

definition create_body ::
  "Daemon \<Rightarrow> ContainerCreateConfig \<Rightarrow>
     error option \<times> Container option \<times> action list \<times> deferred list" where
  "create_body daemon params =
     (if Image params \<noteq> []
      then (case GetImage daemon (Image params) of
              Inl err \<Rightarrow> (Some err, None, [Call_GetImage (Image params)], [])
            | Inr imgID \<Rightarrow> create_new daemon params (Some imgID) [Call_GetImage (Image params)])
      else create_new daemon params None [])"

text \<open>
  \<open>create\<close>: the body, then the deferred functions, last registered first. The result is the
  error and no container, or the container and no error, with the trace. (The body gives no
  container only with an error and with nothing deferred.)
\<close>

definition create ::
  "Daemon \<Rightarrow> ContainerCreateConfig \<Rightarrow> error option \<times> Container option \<times> action list" where
  "create daemon params =
     (case create_body daemon params of
        (retErr, None, tr, ds) \<Rightarrow> (retErr, None, tr)
      | (retErr, Some container, tr, ds) \<Rightarrow>
          (retErr, (if retErr = None then Some container else None),
           tr @ concat (map (run_deferred daemon retErr container) (rev ds))))"

section \<open>The runtime client: the container of libcontainerd (package libcontainerd in docker/flags.go)\<close>

text \<open>
  Modelled from the spec: the state constants, declared in a file of libcontainerd that is
  not among the sources, are the values of the discriminated state of a StateInfo, the set
  {Start, Exit, Pause, Resume, OOM, ExitProcess, Restart}. They are distinct constructors;
  \<open>StateOther\<close> stands for any other type that an event of the backend carries.
\<close>

datatype state =
    StateStart
  | StateExit
  | StatePause
  | StateResume
  | StateOOM
  | StateExitProcess
  | StateRestart
  | StateOther string

text \<open>
  \<open>containerd.Event\<close> and \<open>StateInfo\<close>. \<open>Id'\<close> is the field \<open>Id\<close> of the event; \<open>Pid'\<close> and
  \<open>ExitCode'\<close> are the fields \<open>Pid\<close> and \<open>ExitCode\<close> of the StateInfo (both \<open>uint32\<close>; nothing is
  computed with them).
\<close>

record Event =
  Id' :: string
  Type :: state
  Pid :: string
  Status :: nat

record StateInfo =
  State :: state
  Pid' :: nat
  ExitCode' :: nat
  ProcessID :: string
  OOMKilled :: bool

record CreateContainerRequest =
  Request_Id :: string
  BundlePath :: string
  Stdin :: string
  Stdout :: string
  Stderr :: string
  NoPivotRoot :: bool

text \<open>
  A restart manager is its method \<open>ShouldRestart(exitCode, hasBeenManuallyStopped,
  executionDuration)\<close>, which returns the decision, the channel to wait on and an error.
  Channels and the handles of the opened pipes are numbers.
\<close>

type_synonym RestartManager = "nat \<Rightarrow> bool \<Rightarrow> int \<Rightarrow> bool \<times> nat \<times> error option"

record process =
  process_dir :: string
  process_friendlyName :: string

text \<open>
  The container of libcontainerd (the shadow record of the daemon's container): the fields
  of \<open>containerCommon\<close> and of the embedded process that the source uses, and \<open>oom\<close>.
  \<open>restartManager\<close> is \<open>None\<close> when nil; times are integers.
\<close>

record container =
  containerID :: string
  friendlyName :: string
  dir :: string
  systemPid :: nat
  restartManager :: "RestartManager option"
  restarting :: bool
  processes :: "string \<rightharpoonup> process"
  startedAt :: int
  oom :: bool

text \<open>
  A function literal of the source is a value: the code it stands for and the variables it
  captured. Go captures variables by reference, and \<open>handleEvent\<close> shares its variable \<open>st\<close>
  with the goroutine it starts and with the functions it queues. So each call of
  \<open>handleEvent\<close> allocates its \<open>st\<close> in \<open>cells\<close>, and the closures hold the index.
  \<open>Closure_event\<close> is the function of lines 226 to 238, \<open>Closure_exit\<close> that of lines 202 to
  206, \<open>Goroutine_wait\<close> the goroutine of lines 194 to 213 with the channel it waits on.
\<close>

datatype closure = Closure_event nat Event | Closure_exit nat Event

datatype goroutine = Goroutine_wait nat nat Event

text \<open>
  The state of the client: the registry \<open>containers\<close> (its keys), the queue \<open>q\<close> of functions
  appended per container identifier, the goroutines started, and the cells.
\<close>

record client =
  containers :: "string set"
  q :: "(string \<times> closure) list"
  goroutines :: "goroutine list"
  cells :: "StateInfo list"

datatype effect =
    Client_lock string
  | Client_unlock string
  | Logrus_Warn string
  | Logrus_Error string
  | Logrus_Debug_unhandled Event
  | Call_Lstat string
  | Call_RemoveAll string
  | Call_Remove string
  | Call_openFifos bool
  | Call_closeFifos nat
  | Call_CreateContainer CreateContainerRequest
  | Call_AttachStreams string nat
  | Call_StateChanged string StateInfo
  | Call_ShouldRestart nat bool int
  | Call_pauseMonitor_handle state
  | Call_exitNotifier_close string

text \<open>
  The operating system, the backend and the bridge are parameters, as are the constants
  \<open>InitFriendlyName\<close>, \<open>configFilename\<close> and \<open>ErrRestartCanceled\<close> and the helpers \<open>fifo\<close> (the path
  of pipe \<open>i\<close> of the process in a directory with a friendly name) and \<open>Join\<close>
  (\<open>filepath.Join\<close>). \<open>CreateContainer\<close> gives \<open>systemPid(resp.Container)\<close> of its response;
  \<open>getExitNotifier\<close> tells whether a notifier exists; \<open>Now\<close> is the clock.
\<close>

record Runtime =
  InitFriendlyName :: string
  configFilename :: string
  ErrRestartCanceled :: error
  Getenv :: "string \<Rightarrow> string"
  Lstat :: "string \<Rightarrow> error option"
  IsNotExist :: "error \<Rightarrow> bool"
  RemoveAll :: "string \<Rightarrow> error option"
  Remove :: "string \<Rightarrow> error option"
  Join :: "string \<Rightarrow> string \<Rightarrow> string"
  ReadFile :: "string \<Rightarrow> error + string"
  Unmarshal :: "string \<Rightarrow> error + Spec"
  fifo :: "string \<Rightarrow> string \<Rightarrow> nat \<Rightarrow> string"
  openFifos :: "bool \<Rightarrow> error + nat"
  CreateContainer :: "CreateContainerRequest \<Rightarrow> error + nat"
  AttachStreams :: "string \<Rightarrow> nat \<Rightarrow> error option"
  StateChanged :: "string \<Rightarrow> StateInfo \<Rightarrow> error option"
  getExitNotifier :: "string \<Rightarrow> bool"
  Now :: int

definition clean :: "Runtime \<Rightarrow> container \<Rightarrow> error option \<times> effect list" where
  "clean rt ctr =
     (if Getenv rt ''LIBCONTAINERD_NOCLEAN'' = ''1'' then (None, [])
      else (case Lstat rt (dir ctr) of
              Some err \<Rightarrow>
                if IsNotExist rt err then (None, [Call_Lstat (dir ctr)])
                else (Some err, [Call_Lstat (dir ctr)])
            | None \<Rightarrow>
                (case RemoveAll rt (dir ctr) of
                   Some err \<Rightarrow> (Some err, [Call_Lstat (dir ctr), Call_RemoveAll (dir ctr)])
                 | None \<Rightarrow> (None, [Call_Lstat (dir ctr), Call_RemoveAll (dir ctr)]))))"

text \<open>One round of the loop of \<open>cleanProcess\<close> over the three standard descriptors.\<close>

definition removeFifo :: "Runtime \<Rightarrow> string \<Rightarrow> process \<Rightarrow> nat \<Rightarrow> effect list" where
  "removeFifo rt pid p i =
     Call_Remove (fifo rt (process_dir p) (process_friendlyName p) i)
     # (case Remove rt (fifo rt (process_dir p) (process_friendlyName p) i) of
          None \<Rightarrow> []
        | Some err \<Rightarrow>
            [Logrus_Warn (''failed to remove '' @ fifo rt (process_dir p) (process_friendlyName p) i
                          @ '' for process '' @ pid @ '': '' @ Error err)])"

definition cleanProcess :: "Runtime \<Rightarrow> string \<Rightarrow> container \<Rightarrow> container \<times> effect list" where
  "cleanProcess rt pid ctr =
     (ctr\<lparr>processes := (processes ctr)(pid := None)\<rparr>,
      (case processes ctr pid of
         Some p \<Rightarrow> concat (map (removeFifo rt pid p) [0, 1, 2])
       | None \<Rightarrow> []))"

definition spec :: "Runtime \<Rightarrow> container \<Rightarrow> error + Spec" where
  "spec rt ctr =
     (case ReadFile rt (Join rt (dir ctr) (configFilename rt)) of
        Inl err \<Rightarrow> Inl err
      | Inr dt \<Rightarrow> (case Unmarshal rt dt of Inl err \<Rightarrow> Inl err | Inr sp \<Rightarrow> Inr sp))"

definition start :: "Runtime \<Rightarrow> container \<Rightarrow> client \<Rightarrow> error option \<times> container \<times> client \<times> effect list" where
  "start rt ctr clnt =
     (case spec rt ctr of
        Inl err \<Rightarrow> (None, ctr, clnt, [])
      | Inr sp \<Rightarrow>
          (case openFifos rt (Terminal sp) of
             Inl err \<Rightarrow> (Some err, ctr, clnt, [Call_openFifos (Terminal sp)])
           | Inr iopipe \<Rightarrow>
               let r = \<lparr>Request_Id = containerID ctr, BundlePath = dir ctr,
                        Stdin = fifo rt (dir ctr) (friendlyName ctr) 0,
                        Stdout = fifo rt (dir ctr) (friendlyName ctr) 1,
                        Stderr = fifo rt (dir ctr) (friendlyName ctr) 2,
                        NoPivotRoot = (Getenv rt ''DOCKER_RAMDISK'' \<noteq> [])\<rparr>;
                   clnt1 = clnt\<lparr>containers := insert (containerID ctr) (containers clnt)\<rparr>
               in (case CreateContainer rt r of
                     Inl err \<Rightarrow>
                       (Some err, ctr, clnt1,
                        [Call_openFifos (Terminal sp), Call_CreateContainer r, Call_closeFifos iopipe])
                   | Inr pid \<Rightarrow>
                       let ctr1 = ctr\<lparr>startedAt := Now rt\<rparr>
                       in (case AttachStreams rt (containerID ctr1) iopipe of
                             Some err \<Rightarrow>
                               (Some err, ctr1, clnt1,
                                [Call_openFifos (Terminal sp), Call_CreateContainer r,
                                 Call_AttachStreams (containerID ctr1) iopipe])
                           | None \<Rightarrow>
                               let ctr2 = ctr1\<lparr>systemPid := pid\<rparr>;
                                   si = \<lparr>State = StateStart, Pid' = systemPid ctr2, ExitCode' = 0,
                                         ProcessID = [], OOMKilled = False\<rparr>
                               in (StateChanged rt (containerID ctr2) si, ctr2, clnt1,
                                   [Call_openFifos (Terminal sp), Call_CreateContainer r,
                                    Call_AttachStreams (containerID ctr1) iopipe,
                                    Call_StateChanged (containerID ctr2) si])))))"

text \<open>
  \<open>handleEvent\<close>, lines 186 to 215: the restart manager is asked when the state is still
  \<open>StateExit\<close> and a manager is present. \<open>cell\<close> is the index of \<open>st\<close>.
\<close>

definition handleEvent_restart ::
  "Runtime \<Rightarrow> Event \<Rightarrow> nat \<Rightarrow> StateInfo \<Rightarrow> container \<Rightarrow> client \<Rightarrow>
     StateInfo \<times> container \<times> client \<times> effect list" where
  "handleEvent_restart rt e cell st ctr clnt =
     (if State st = StateExit
      then (case restartManager ctr of
              None \<Rightarrow> (st, ctr, clnt, [])
            | Some rm \<Rightarrow>
                (case rm (Status e) False (Now rt - startedAt ctr) of
                   (restart, wait, Some err) \<Rightarrow>
                     (st, ctr, clnt,
                      [Call_ShouldRestart (Status e) False (Now rt - startedAt ctr),
                       Logrus_Warn (''container '' @ containerID ctr @ '' '' @ Error err)])
                 | (restart, wait, None) \<Rightarrow>
                     if restart
                     then (st\<lparr>State := StateRestart\<rparr>, ctr\<lparr>restarting := True\<rparr>,
                           clnt\<lparr>containers := containers clnt - {Id' e},
                                goroutines := goroutines clnt @ [Goroutine_wait wait cell e]\<rparr>,
                           [Call_ShouldRestart (Status e) False (Now rt - startedAt ctr)])
                     else (st, ctr, clnt,
                           [Call_ShouldRestart (Status e) False (Now rt - startedAt ctr)])))
      else (st, ctr, clnt, []))"

text \<open>Lines 219 to 225: the switch on the state reached.\<close>

definition handleEvent_remove ::
  "Runtime \<Rightarrow> Event \<Rightarrow> StateInfo \<Rightarrow> container \<Rightarrow> client \<Rightarrow> container \<times> client \<times> effect list" where
  "handleEvent_remove rt e st ctr clnt =
     (if State st = StateExit
      then (ctr, clnt\<lparr>containers := containers clnt - {Id' e}\<rparr>, snd (clean rt ctr))
      else if State st = StateExitProcess
      then (fst (cleanProcess rt (ProcessID st) ctr), clnt, snd (cleanProcess rt (ProcessID st) ctr))
      else (ctr, clnt, []))"

definition handleEvent ::
  "Runtime \<Rightarrow> Event \<Rightarrow> container \<Rightarrow> client \<Rightarrow> error option \<times> container \<times> client \<times> effect list" where
  "handleEvent rt e ctr clnt =
     (if Type e = StateExit \<or> Type e = StatePause \<or> Type e = StateResume \<or> Type e = StateOOM
      then
        let cell = length (cells clnt);
            st = \<lparr>State = Type e, Pid' = 0, ExitCode' = Status e, ProcessID = [],
                  OOMKilled = (Type e = StateExit \<and> oom ctr)\<rparr>;
            ctr1 = (if Type e = StateOOM then ctr\<lparr>oom := True\<rparr> else ctr);
            st1 = (if Type e = StateExit \<and> Pid e \<noteq> InitFriendlyName rt
                   then st\<lparr>ProcessID := Pid e, State := StateExitProcess\<rparr> else st);
            (st2, ctr2, clnt2, tr2) = handleEvent_restart rt e cell st1 ctr1 clnt;
            (ctr3, clnt3, tr3) = handleEvent_remove rt e st2 ctr2 clnt2
        in (None, ctr3,
            clnt3\<lparr>cells := cells clnt3 @ [st2], q := q clnt3 @ [(Id' e, Closure_event cell e)]\<rparr>,
            [Client_lock (containerID ctr)] @ tr2 @ tr3 @ [Client_unlock (containerID ctr)])
      else (None, ctr, clnt,
            [Client_lock (containerID ctr), Logrus_Debug_unhandled e, Client_unlock (containerID ctr)]))"

text \<open>
  The goroutine of lines 194 to 213, once the channel has delivered \<open>err\<close>.
\<close>

definition waiter ::
  "Runtime \<Rightarrow> error option \<Rightarrow> nat \<Rightarrow> Event \<Rightarrow> container \<Rightarrow> client \<Rightarrow> container \<times> client \<times> effect list" where
  "waiter rt err cell e ctr clnt =
     (let ctr1 = ctr\<lparr>restarting := False\<rparr>
      in (case err of
            Some er \<Rightarrow>
              (ctr1,
               clnt\<lparr>cells := (cells clnt)[cell := (cells clnt ! cell)\<lparr>State := StateExit\<rparr>],
                    q := q clnt @ [(Id' e, Closure_exit cell e)]\<rparr>,
               [Client_lock (containerID ctr)] @ snd (clean rt ctr1)
               @ (if er \<noteq> ErrRestartCanceled rt then [Logrus_Error (Error er)] else [])
               @ [Client_unlock (containerID ctr)])
          | None \<Rightarrow>
              (case start rt ctr1 clnt of
                 (serr, ctr2, clnt2, tr) \<Rightarrow>
                   (ctr2, clnt2,
                    [Client_lock (containerID ctr)] @ tr @ [Client_unlock (containerID ctr)]))))"

text \<open>
  A queued function, when the queue runs it: it reads \<open>st\<close> as it is then.
\<close>

definition deliver :: "Runtime \<Rightarrow> string \<Rightarrow> StateInfo \<Rightarrow> effect list" where
  "deliver rt cid st =
     Call_StateChanged cid st
     # (case StateChanged rt cid st of None \<Rightarrow> [] | Some err \<Rightarrow> [Logrus_Error (Error err)])"

fun run_closure :: "Runtime \<Rightarrow> client \<Rightarrow> closure \<Rightarrow> effect list" where
  "run_closure rt clnt (Closure_exit cell e) = deliver rt (Id' e) (cells clnt ! cell)"
| "run_closure rt clnt (Closure_event cell e) =
     deliver rt (Id' e) (cells clnt ! cell)
     @ (if Type e = StatePause \<or> Type e = StateResume then [Call_pauseMonitor_handle (Type e)] else [])
     @ (if Type e = StateExit \<and> getExitNotifier rt (Id' e) then [Call_exitNotifier_close (Id' e)] else [])"

text \<open>
  What can happen to one container, in any order: the backend delivers an event, a
  goroutine wakes up with the value of its channel, or \<open>start\<close> is called. Each step has its
  own runtime, since the clock and the outcomes of the collaborators change between steps.
\<close>

datatype step = Step_handleEvent Event | Step_waiter "error option" nat Event | Step_start

fun do_step :: "Runtime \<times> step \<Rightarrow> container \<times> client \<Rightarrow> container \<times> client" where
  "do_step (rt, Step_handleEvent e) (ctr, clnt) =
     (case handleEvent rt e ctr clnt of (err, ctr', clnt', tr) \<Rightarrow> (ctr', clnt'))"
| "do_step (rt, Step_waiter err cell e) (ctr, clnt) =
     (case waiter rt err cell e ctr clnt of (ctr', clnt', tr) \<Rightarrow> (ctr', clnt'))"
| "do_step (rt, Step_start) (ctr, clnt) =
     (case start rt ctr clnt of (err, ctr', clnt', tr) \<Rightarrow> (ctr', clnt'))"

fun run :: "(Runtime \<times> step) list \<Rightarrow> container \<times> client \<Rightarrow> container \<times> client" where
  "run [] s = s"
| "run (x # xs) s = run xs (do_step x s)"

section \<open>Concrete collaborators and containers\<close>

text \<open>
  A daemon whose collaborators all succeed, on Linux, and a created container that is not
  running; the concrete instances of the theorems below vary these.
\<close>

definition example_container :: Container where
  "example_container =
     \<lparr>ID = ''c1'', Path = ''/bin/sh'', Root = ''/var/lib/docker/containers/c1'', ImageID = [],
      MountLabel = [], RWLayer = None, BaseFS = [], HostConfig = \<lparr>NetworkMode = ''bridge''\<rparr>,
      Networks = None, Running = False, Paused = False, RemovalInProgress = False, Dead = False,
      ExitCode = 0, ExecCommands = []\<rparr>"

definition example_daemon :: Daemon where
  "example_daemon =
     \<lparr>GOOS = ''linux'',
      GetContainer = (\<lambda>name. Inr example_container),
      setSecurityOptions = (\<lambda>c hostConfig. (None, c)),
      setHostConfig = (\<lambda>c hostConfig. (None, c)),
      ToDisk = (\<lambda>c. None),
      verifyContainerSettings = (\<lambda>hostConfig. None),
      adaptContainerSettings = (\<lambda>hostConfig. None),
      conditionalMountOnStart = (\<lambda>c. None),
      SetDefaultNetModeIfBlank = (\<lambda>hostConfig. hostConfig),
      initializeNetworking = (\<lambda>c. None),
      createSpec = (\<lambda>c. Inr \<lparr>Terminal = False\<rparr>),
      containerd_Create = (\<lambda>cid sp. None),
      conditionalUnmountOnCleanup = (\<lambda>c. None),
      GetMountID = (\<lambda>cid. Inr ''mount1''),
      UnmountVolumes = (\<lambda>c. None),
      GetImage = (\<lambda>image. Inr ''sha256:0001''),
      mergeAndVerifyConfig = (\<lambda>image img. None),
      newContainer = (\<lambda>name image imgID. Inr (example_container\<lparr>ImageID := imgID\<rparr>)),
      ContainerRm = (\<lambda>cid force. None),
      imageStore_Get = (\<lambda>imgID. Inr ''chain1''),
      CreateRWLayer = (\<lambda>cid layerID label. Inr ''rw1''),
      Register = (\<lambda>c. None),
      GetRootUIDGID = Inr (0, 0),
      MkdirAs = (\<lambda>path uid gid. None),
      removeMountPoints = (\<lambda>c rm. None),
      createContainerPlatformSpecificSettings = (\<lambda>c. None),
      updateContainerNetworkSettings = (\<lambda>c endpoints. None),
      ToDiskLocking = (\<lambda>c. None)\<rparr>"

definition example_params :: ContainerCreateConfig where
  "example_params =
     \<lparr>Name = ''web'', Image = ''busybox'', ParamsHostConfig = None, EndpointsConfig = None\<rparr>"

text \<open>
  A runtime whose calls all succeed, a container of libcontainerd that has been started at
  time 100 with one additional process, and a client that knows it.
\<close>

definition example_runtime :: Runtime where
  "example_runtime =
     \<lparr>InitFriendlyName = ''init'',
      configFilename = ''config.json'',
      ErrRestartCanceled = Errorf ''restart canceled'',
      Getenv = (\<lambda>name. []),
      Lstat = (\<lambda>path. None),
      IsNotExist = (\<lambda>err. False),
      RemoveAll = (\<lambda>path. None),
      Remove = (\<lambda>path. None),
      Join = (\<lambda>a b. a @ ''/'' @ b),
      ReadFile = (\<lambda>path. Inr ''{}''),
      Unmarshal = (\<lambda>dt. Inr \<lparr>Terminal = False\<rparr>),
      fifo = (\<lambda>d name i. d @ ''/'' @ name @ ''-'' @ [''012'' ! i]),
      openFifos = (\<lambda>terminal. Inr 7),
      CreateContainer = (\<lambda>r. Inr 4242),
      AttachStreams = (\<lambda>cid iopipe. None),
      StateChanged = (\<lambda>cid st. None),
      getExitNotifier = (\<lambda>cid. False),
      Now = 160\<rparr>"

definition restart_always :: RestartManager where
  "restart_always exitCode hasBeenManuallyStopped executionDuration = (True, 5, None)"

definition example_ctr :: container where
  "example_ctr =
     \<lparr>containerID = ''c1'', friendlyName = ''init'', dir = ''/run/c1'', systemPid = 4242,
      restartManager = None, restarting = False,
      processes = [''exec1'' \<mapsto> \<lparr>process_dir = ''/run/c1'', process_friendlyName = ''exec1''\<rparr>],
      startedAt = 100, oom = False\<rparr>"

definition example_client :: client where
  "example_client = \<lparr>containers = {''c1''}, q = [], goroutines = [], cells = []\<rparr>"

definition exit_event :: "string \<Rightarrow> nat \<Rightarrow> Event" where
  "exit_event pid status = \<lparr>Id' = ''c1'', Type = StateExit, Pid = pid, Status = status\<rparr>"

definition oom_event :: Event where
  "oom_event = \<lparr>Id' = ''c1'', Type = StateOOM, Pid = ''init'', Status = 0\<rparr>"

text \<open>Variations: one collaborator fails, or the container is in another state.\<close>

definition daemon_create_fails :: "string \<Rightarrow> Daemon" where
  "daemon_create_fails msg = example_daemon\<lparr>containerd_Create := (\<lambda>cid sp. Some (Errorf msg))\<rparr>"

definition daemon_mount_fails :: Daemon where
  "daemon_mount_fails =
     example_daemon\<lparr>conditionalMountOnStart := (\<lambda>c. Some (Errorf ''mount failed''))\<rparr>"

definition daemon_holding :: "Container \<Rightarrow> Daemon" where
  "daemon_holding c = example_daemon\<lparr>GetContainer := (\<lambda>name. Inr c)\<rparr>"

definition paused_container :: Container where
  "paused_container = example_container\<lparr>Running := True, Paused := True\<rparr>"

definition running_container :: Container where
  "running_container = example_container\<lparr>Running := True\<rparr>"

definition mounted_container :: Container where
  "mounted_container =
     example_container\<lparr>BaseFS := ''/var/lib/docker/aufs/mnt/c1'', ExecCommands := [''exec1'', ''exec2'']\<rparr>"

definition daemon_unmount_fails :: Daemon where
  "daemon_unmount_fails =
     example_daemon\<lparr>conditionalUnmountOnCleanup := (\<lambda>c. Some (Errorf ''device busy'')),
                    UnmountVolumes := (\<lambda>c. Some (Errorf ''volume busy''))\<rparr>"

definition daemon_security_fails :: Daemon where
  "daemon_security_fails =
     example_daemon\<lparr>setSecurityOptions := (\<lambda>c hostConfig. (Some (Errorf ''invalid label''), c))\<rparr>"

definition daemon_mkdir_fails :: Daemon where
  "daemon_mkdir_fails = example_daemon\<lparr>MkdirAs := (\<lambda>path uid gid. Some (Errorf ''mkdir failed''))\<rparr>"

definition daemon_todisk_fails :: Daemon where
  "daemon_todisk_fails = example_daemon\<lparr>ToDiskLocking := (\<lambda>c. Some (Errorf ''disk full''))\<rparr>"

definition daemon_image_fails :: Daemon where
  "daemon_image_fails = example_daemon\<lparr>GetImage := (\<lambda>image. Inl (Errorf ''no such image''))\<rparr>"

definition runtime_no_spec :: Runtime where
  "runtime_no_spec = example_runtime\<lparr>ReadFile := (\<lambda>path. Inl (Errorf ''open config.json: no such file''))\<rparr>"

definition restarting_ctr :: container where
  "restarting_ctr = example_ctr\<lparr>restartManager := Some restart_always\<rparr>"

section \<open>Substrings\<close>

lemma sublist_separator:
  assumes "sep \<notin> set xs"
  shows "sublist xs (as @ sep # bs) \<longleftrightarrow> sublist xs as \<or> sublist xs bs"
proof
  assume "sublist xs (as @ sep # bs)"
  then consider "sublist xs as" | "sublist xs (sep # bs)"
    | xs1 xs2 where "xs = xs1 @ xs2" "suffix xs1 as" "prefix xs2 (sep # bs)"
    unfolding sublist_append by blast
  then show "sublist xs as \<or> sublist xs bs"
  proof cases
    case 1
    then show ?thesis by simp
  next
    case 2
    then have "prefix xs (sep # bs) \<or> sublist xs bs" by (simp add: sublist_Cons_right)
    moreover have "xs = []" if "prefix xs (sep # bs)"
      using that assms by (cases xs) auto
    ultimately show ?thesis by auto
  next
    case 3
    from 3(1) assms have "sep \<notin> set xs2" by simp
    with 3(3) have "xs2 = []" by (cases xs2) auto
    with 3(1,2) show ?thesis by auto
  qed
next
  assume "sublist xs as \<or> sublist xs bs"
  then show "sublist xs (as @ sep # bs)"
    by (auto simp: sublist_append sublist_Cons_right)
qed

lemma Contains_quoted:
  assumes "CHR 0x27 \<notin> set sub"
  shows "Contains (pre @ quoted s @ post) sub
           \<longleftrightarrow> Contains pre sub \<or> Contains s sub \<or> Contains post sub"
proof -
  have "pre @ quoted s @ post = pre @ CHR 0x27 # (s @ CHR 0x27 # post)"
    by (simp add: quoted_def)
  moreover have "sublist sub (pre @ CHR 0x27 # (s @ CHR 0x27 # post))
      \<longleftrightarrow> sublist sub pre \<or> sublist sub (s @ CHR 0x27 # post)"
    by (rule sublist_separator [OF assms])
  moreover have "sublist sub (s @ CHR 0x27 # post) \<longleftrightarrow> sublist sub s \<or> sublist sub post"
    by (rule sublist_separator [OF assms])
  ultimately show ?thesis
    unfolding Contains_def by presburger
qed

lemma notFoundError_EACCES:
  "Contains (Error (notFoundError c)) EACCES_Error \<longleftrightarrow> Contains (Path c) EACCES_Error"
proof -
  have quote: "CHR 0x27 \<notin> set EACCES_Error"
    by (simp add: EACCES_Error_def)
  have a: "\<not> Contains ''Container command '' EACCES_Error"
    by (simp add: Contains_def EACCES_Error_def sublist_code)
  have b: "\<not> Contains '' not found or does not exist.'' EACCES_Error"
    by (simp add: Contains_def EACCES_Error_def sublist_code)
  show ?thesis
    unfolding notFoundError_def Error.simps Contains_quoted [OF quote]
    using a b by simp
qed

section \<open>The classification of the error of the create call\<close>

lemma classifyCreateError_notFound:
  assumes "Contains (Error err) ''executable file not found'' \<or>
           Contains (Error err) ''no such file or directory'' \<or>
           Contains (Error err) ''system cannot find the file specified''"
    and "\<not> Contains (Path c) EACCES_Error"
  shows "classifyCreateError c err = (c\<lparr>ExitCode := 127\<rparr>, notFoundError c)"
  using assms by (simp add: classifyCreateError_def notFoundError_EACCES)

lemma classifyCreateError_EACCES:
  assumes "\<not> Contains (Error err) ''executable file not found''"
    and "\<not> Contains (Error err) ''no such file or directory''"
    and "\<not> Contains (Error err) ''system cannot find the file specified''"
    and "Contains (Error err) EACCES_Error"
  shows "classifyCreateError c err = (c\<lparr>ExitCode := 126\<rparr>, notInvokedError c)"
  using assms by (simp add: classifyCreateError_def notInvokedError_def)

lemma classifyCreateError_other:
  assumes "\<not> Contains (Error err) ''executable file not found''"
    and "\<not> Contains (Error err) ''no such file or directory''"
    and "\<not> Contains (Error err) ''system cannot find the file specified''"
    and "\<not> Contains (Error err) EACCES_Error"
  shows "classifyCreateError c err = (c, err)"
  using assms by (simp add: classifyCreateError_def)

text \<open>The whole run of \<open>containerStart\<close> when every step up to the create call succeeds
  and the create call fails.\<close>

lemma containerStart_create_failed:
  assumes "\<not> Running c" and "\<not> RemovalInProgress c" and "\<not> Dead c"
    and "conditionalMountOnStart d c = None"
    and "initializeNetworking d (c\<lparr>HostConfig := SetDefaultNetModeIfBlank d (HostConfig c)\<rparr>) = None"
    and "createSpec d (c\<lparr>HostConfig := SetDefaultNetModeIfBlank d (HostConfig c)\<rparr>) = Inr sp"
    and "containerd_Create d (ID c) sp = Some err"
    and "classifyCreateError (c\<lparr>HostConfig := SetDefaultNetModeIfBlank d (HostConfig c)\<rparr>) err = (c2, err2)"
  shows "containerStart d c =
     (Some err2, (if ExitCode c2 = 0 then c2\<lparr>ExitCode := 128\<rparr> else c2),
      [Lock, Call_conditionalMountOnStart, Call_initializeNetworking, Call_createSpec,
       Call_RestartManager True, Call_containerd_Create (ID c) sp,
       Call_Reset False, Call_LogContainerEvent ''start'',
       Call_SetError err2, Call_ToDisk]
      @ Cleanup d (if ExitCode c2 = 0 then c2\<lparr>ExitCode := 128\<rparr> else c2)
      @ [Call_LogContainerEventWithAttributes ''die''
           [(''exitCode'', Sprintf_d (ExitCode (if ExitCode c2 = 0 then c2\<lparr>ExitCode := 128\<rparr> else c2)))],
         Unlock])"
  using assms
  by (simp add: containerStart_def containerStart_body_def containerStart_deferred_def Let_def)

lemmas example_defs =
  example_container_def example_daemon_def daemon_create_fails_def daemon_mount_fails_def
  daemon_holding_def paused_container_def running_container_def mounted_container_def
  daemon_unmount_fails_def

lemmas string_eval = Contains_def EACCES_Error_def sublist_code

text \<open>
  C1 (amended). When the create call fails: if the message of the error contains one of the
  three not-found texts, and the path of the container's command does not itself contain the
  permission-denied text, then the exit code of the container is 127 and the returned error
  is the "not found or does not exist" error for that path; if the message contains none of
  the three texts but contains the permission-denied text, the exit code is 126 and the
  returned error is the "could not be invoked" error; if it contains none of the four, the
  error is returned unmodified. (A message with a not-found text and the permission-denied
  text is classified as not found.)
\<close>

theorem containerStart_classifies_create_error:
  assumes "\<not> Running c" and "\<not> RemovalInProgress c" and "\<not> Dead c"
    and "conditionalMountOnStart d c = None"
    and "initializeNetworking d (c\<lparr>HostConfig := SetDefaultNetModeIfBlank d (HostConfig c)\<rparr>) = None"
    and "createSpec d (c\<lparr>HostConfig := SetDefaultNetModeIfBlank d (HostConfig c)\<rparr>) = Inr sp"
    and "containerd_Create d (ID c) sp = Some err"
  shows "case containerStart d c of (r, c', tr) \<Rightarrow>
      (((Contains (Error err) ''executable file not found'' \<or>
         Contains (Error err) ''no such file or directory'' \<or>
         Contains (Error err) ''system cannot find the file specified'') \<and>
        \<not> Contains (Path c) EACCES_Error
        \<longrightarrow> ExitCode c' = 127 \<and> r = Some (notFoundError c)) \<and>
       (\<not> Contains (Error err) ''executable file not found'' \<and>
        \<not> Contains (Error err) ''no such file or directory'' \<and>
        \<not> Contains (Error err) ''system cannot find the file specified'' \<and>
        Contains (Error err) EACCES_Error
        \<longrightarrow> ExitCode c' = 126 \<and> r = Some (notInvokedError c)) \<and>
       (\<not> Contains (Error err) ''executable file not found'' \<and>
        \<not> Contains (Error err) ''no such file or directory'' \<and>
        \<not> Contains (Error err) ''system cannot find the file specified'' \<and>
        \<not> Contains (Error err) EACCES_Error
        \<longrightarrow> r = Some err))"
proof -
  let ?c1 = "c\<lparr>HostConfig := SetDefaultNetModeIfBlank d (HostConfig c)\<rparr>"
  obtain c2 err2 where cl: "classifyCreateError ?c1 err = (c2, err2)"
    by (cases "classifyCreateError ?c1 err")
  note whole = containerStart_create_failed [OF assms cl]
  have nf: "notFoundError ?c1 = notFoundError c" by (simp add: notFoundError_def)
  have ni: "notInvokedError ?c1 = notInvokedError c" by (simp add: notInvokedError_def)
  show ?thesis
    unfolding whole
    using cl classifyCreateError_notFound [of err ?c1] classifyCreateError_EACCES [of err ?c1]
      classifyCreateError_other [of err ?c1]
    by (auto simp: nf ni)
qed

theorem containerStart_classifies_create_error_witness:
  "(case containerStart (daemon_create_fails ''exec: sh: executable file not found in $PATH'') example_container
      of (r, c', tr) \<Rightarrow> ExitCode c' = 127 \<and> r = Some (notFoundError example_container)) \<and>
   (case containerStart (daemon_create_fails ''fork/exec /bin/sh: permission denied'') example_container
      of (r, c', tr) \<Rightarrow> ExitCode c' = 126 \<and> r = Some (notInvokedError example_container)) \<and>
   (case containerStart (daemon_create_fails ''connection refused'') example_container
      of (r, c', tr) \<Rightarrow> r = Some (Errorf ''connection refused''))"
proof -
  have a: "case containerStart (daemon_create_fails ''exec: sh: executable file not found in $PATH'') example_container
      of (r, c', tr) \<Rightarrow> ExitCode c' = 127 \<and> r = Some (notFoundError example_container)"
    using containerStart_classifies_create_error
      [of example_container "daemon_create_fails ''exec: sh: executable file not found in $PATH''"
          "\<lparr>Terminal = False\<rparr>" "Errorf ''exec: sh: executable file not found in $PATH''"]
    by (simp add: example_defs string_eval split: prod.splits)
  have b: "case containerStart (daemon_create_fails ''fork/exec /bin/sh: permission denied'') example_container
      of (r, c', tr) \<Rightarrow> ExitCode c' = 126 \<and> r = Some (notInvokedError example_container)"
    using containerStart_classifies_create_error
      [of example_container "daemon_create_fails ''fork/exec /bin/sh: permission denied''"
          "\<lparr>Terminal = False\<rparr>" "Errorf ''fork/exec /bin/sh: permission denied''"]
    by (simp add: example_defs string_eval split: prod.splits)
  have c: "case containerStart (daemon_create_fails ''connection refused'') example_container
      of (r, c', tr) \<Rightarrow> r = Some (Errorf ''connection refused'')"
    using containerStart_classifies_create_error
      [of example_container "daemon_create_fails ''connection refused''"
          "\<lparr>Terminal = False\<rparr>" "Errorf ''connection refused''"]
    by (simp add: example_defs string_eval split: prod.splits)
  from a b c show ?thesis by blast
qed


text \<open>
  C1, as stated, fails: the message below contains the permission-denied text, yet the exit
  code is 127 and the returned error is the not-found error, because the message also
  contains a not-found text and that test comes first.
\<close>

theorem containerStart_permission_denied_counterexample:
  "Contains (Error (Errorf ''stat /bin/sh: no such file or directory: permission denied'')) EACCES_Error \<and>
   (case containerStart (daemon_create_fails ''stat /bin/sh: no such file or directory: permission denied'')
           example_container
      of (r, c', tr) \<Rightarrow> ExitCode c' \<noteq> 126 \<and> r \<noteq> Some (notInvokedError example_container))"
  by (simp add: containerStart_def containerStart_body_def containerStart_deferred_def
      classifyCreateError_def notFoundError_def notInvokedError_def quoted_def Cleanup_def
      example_defs string_eval)

text \<open>
  The second test reads the message that the first test has just written, and that message
  quotes the path of the command. With a path that contains the permission-denied text, an
  error that was classified as not found is classified once more; this is why the theorem
  above sets such paths aside.
\<close>

lemma containerStart_path_with_permission_denied:
  "(case containerStart (daemon_create_fails ''exec: executable file not found in $PATH'')
           (example_container\<lparr>Path := ''/srv/permission denied/run''\<rparr>)
      of (r, c', tr) \<Rightarrow>
        ExitCode c' = 126 \<and>
        r = Some (notInvokedError (example_container\<lparr>Path := ''/srv/permission denied/run''\<rparr>)))"
  by (simp add: containerStart_def containerStart_body_def containerStart_deferred_def
      classifyCreateError_def notFoundError_def notInvokedError_def quoted_def Cleanup_def
      example_defs string_eval)


section \<open>The events of a failed start\<close>

lemma start_event_notin_Cleanup: "Call_LogContainerEvent name \<notin> set (Cleanup d c)"
  by (auto simp: Cleanup_def split: option.splits sum.splits)

lemma containerStart_body_start_event:
  "case containerStart_body d c of (r, c', tr) \<Rightarrow>
     (Call_LogContainerEvent ''start'' \<in> set tr \<longleftrightarrow>
        conditionalMountOnStart d c = None \<and>
        initializeNetworking d (c\<lparr>HostConfig := SetDefaultNetModeIfBlank d (HostConfig c)\<rparr>) = None \<and>
        (\<exists>sp err. createSpec d (c\<lparr>HostConfig := SetDefaultNetModeIfBlank d (HostConfig c)\<rparr>) = Inr sp \<and>
                  containerd_Create d (ID c) sp = Some err))"
  by (auto simp: containerStart_body_def Let_def split: option.splits sum.splits prod.splits)

text \<open>
  C2 (amended). A failed \<open>containerStart\<close> logs the "start" event exactly when the step that
  failed is the create call (mount, network initialization and spec construction having
  succeeded); a failure of the mount, of the network initialization or of the spec
  construction logs no "start" event. Every failure past the removal check logs a "die"
  event that carries the exit code.
\<close>

theorem containerStart_start_event_iff_create_failed:
  assumes "\<not> Running c" and "\<not> RemovalInProgress c" and "\<not> Dead c"
  shows "case containerStart d c of (r, c', tr) \<Rightarrow>
     (Call_LogContainerEvent ''start'' \<in> set tr \<longleftrightarrow>
        conditionalMountOnStart d c = None \<and>
        initializeNetworking d (c\<lparr>HostConfig := SetDefaultNetModeIfBlank d (HostConfig c)\<rparr>) = None \<and>
        (\<exists>sp err. createSpec d (c\<lparr>HostConfig := SetDefaultNetModeIfBlank d (HostConfig c)\<rparr>) = Inr sp \<and>
                  containerd_Create d (ID c) sp = Some err)) \<and>
     (r \<noteq> None \<longrightarrow>
        Call_LogContainerEventWithAttributes ''die'' [(''exitCode'', Sprintf_d (ExitCode c'))] \<in> set tr)"
proof -
  obtain r c1 tr where body: "containerStart_body d c = (r, c1, tr)"
    by (cases "containerStart_body d c") auto
  obtain c2 tr' where deferred: "containerStart_deferred d r c1 = (c2, tr')"
    by (cases "containerStart_deferred d r c1") auto
  have whole: "containerStart d c = (r, c2, [Lock] @ tr @ tr' @ [Unlock])"
    using assms body deferred by (simp add: containerStart_def)
  have no_start: "Call_LogContainerEvent ''start'' \<notin> set tr'"
    using deferred
    by (auto simp: containerStart_deferred_def start_event_notin_Cleanup Let_def split: option.splits)
  have die: "r \<noteq> None \<Longrightarrow>
      Call_LogContainerEventWithAttributes ''die'' [(''exitCode'', Sprintf_d (ExitCode c2))] \<in> set tr'"
    using deferred
    by (auto simp: containerStart_deferred_def Let_def split: option.splits)
  from containerStart_body_start_event [of d c] body no_start die show ?thesis
    unfolding whole by auto
qed

theorem containerStart_start_event_iff_create_failed_witness:
  "(case containerStart (daemon_create_fails ''connection refused'') example_container of (r, c', tr) \<Rightarrow>
      r \<noteq> None \<and> Call_LogContainerEvent ''start'' \<in> set tr \<and>
      Call_LogContainerEventWithAttributes ''die'' [(''exitCode'', ''128'')] \<in> set tr)"
  using containerStart_start_event_iff_create_failed
    [of example_container "daemon_create_fails ''connection refused''"]
  by (simp add: containerStart_def containerStart_body_def containerStart_deferred_def
      classifyCreateError_def Cleanup_def Sprintf_d_def example_defs string_eval split: prod.splits)

text \<open>
  C2, as stated, fails: when the mount fails, \<open>containerStart\<close> returns the error and the
  trace holds no "start" event.
\<close>

theorem containerStart_mount_failure_counterexample:
  "(case containerStart daemon_mount_fails example_container of (r, c', tr) \<Rightarrow>
      r = Some (Errorf ''mount failed'') \<and> Call_LogContainerEvent ''start'' \<notin> set tr)"
  by (simp add: containerStart_def containerStart_body_def containerStart_deferred_def
      Cleanup_def example_defs)


section \<open>The preconditions of ContainerStart\<close>

text \<open>
  C3. For a container whose paused flag is set, \<open>ContainerStart\<close> returns the error
  "Cannot start a paused container, try unpause instead." (which is not the error of a
  container already started), leaves the container as it was, and has done nothing but
  look the container up: no host-configuration update, no verification of the settings,
  no mount, no network step and no create call.
\<close>

theorem ContainerStart_paused:
  assumes "GetContainer d name = Inr c" and "Paused c"
  shows "ContainerStart d name hostConfig =
           (Some (Errorf ''Cannot start a paused container, try unpause instead.''), Some c,
            [Call_GetContainer name]) \<and>
         Errorf ''Cannot start a paused container, try unpause instead.''
           \<noteq> ErrorWithStatusCode (Errorf ''Container already started'') StatusNotModified"
  using assms by (simp add: ContainerStart_def)

theorem ContainerStart_paused_witness:
  "ContainerStart (daemon_holding (example_container\<lparr>Paused := True\<rparr>)) ''c1''
       (Some \<lparr>NetworkMode = ''host''\<rparr>) =
     (Some (Errorf ''Cannot start a paused container, try unpause instead.''),
      Some (example_container\<lparr>Paused := True\<rparr>), [Call_GetContainer ''c1''])"
  using ContainerStart_paused
    [of "daemon_holding (example_container\<lparr>Paused := True\<rparr>)" "''c1''"
        "example_container\<lparr>Paused := True\<rparr>" "Some \<lparr>NetworkMode = ''host''\<rparr>"]
  by (simp add: example_defs)

text \<open>
  C4 (amended). For a container whose running flag is set and whose paused flag is not set,
  \<open>ContainerStart\<close> returns the error "Container already started" with the HTTP status 304
  (not modified), leaves the container as it was and has done nothing but look the
  container up. For every container whose running flag is set, \<open>containerStart\<close> returns no
  error at once, leaves the container as it was and issues no create call.
\<close>

theorem ContainerStart_running_not_modified:
  "(GetContainer d name = Inr c \<and> Running c \<and> \<not> Paused c \<longrightarrow>
      ContainerStart d name hostConfig =
        (Some (ErrorWithStatusCode (Errorf ''Container already started'') 304), Some c,
         [Call_GetContainer name])) \<and>
   (Running c \<longrightarrow> containerStart d c = (None, c, [Lock, Unlock]))"
  by (simp add: ContainerStart_def containerStart_def StatusNotModified_def)

theorem ContainerStart_running_not_modified_witness:
  "ContainerStart (daemon_holding running_container) ''c1'' None =
     (Some (ErrorWithStatusCode (Errorf ''Container already started'') 304), Some running_container,
      [Call_GetContainer ''c1'']) \<and>
   containerStart (daemon_holding running_container) running_container =
     (None, running_container, [Lock, Unlock])"
  using ContainerStart_running_not_modified
    [of "daemon_holding running_container" "''c1''" running_container None]
  by (simp add: example_defs)

text \<open>
  C4, as stated, fails: a paused container has its running flag set as well, and for it
  \<open>ContainerStart\<close> returns the error of the paused container, which carries no status.
\<close>

theorem ContainerStart_running_paused_counterexample:
  "Running paused_container \<and>
   fst (ContainerStart (daemon_holding paused_container) ''c1'' None) =
     Some (Errorf ''Cannot start a paused container, try unpause instead.'') \<and>
   fst (ContainerStart (daemon_holding paused_container) ''c1'' None) \<noteq>
     Some (ErrorWithStatusCode (Errorf ''Container already started'') StatusNotModified)"
  by (simp add: ContainerStart_def example_defs)

section \<open>Cleanup\<close>

text \<open>
  C9. \<open>Cleanup\<close> returns no error (its result is only the trace of what it did) and goes
  through every step whatever the outcome of the steps before: it starts with the release
  of the network, the unmount of the IPC mounts and the unmount of the filesystem; it looks
  the mount identifier up exactly when that unmount failed, and unmounts by that identifier
  exactly when the lookup gave one; it unregisters every exec command; it unmounts the
  volumes exactly when \<open>BaseFS\<close> is not empty, and a failure there is only logged; and it
  ends with the cancellation of the attach context.
\<close>

theorem Cleanup_performs_every_step:
  "take 3 (Cleanup d c) =
     [Call_releaseNetwork, Call_UnmountIpcMounts, Call_conditionalUnmountOnCleanup] \<and>
   (Call_GetMountID (ID c) \<in> set (Cleanup d c) \<longleftrightarrow> conditionalUnmountOnCleanup d c \<noteq> None) \<and>
   (Call_cleanupMountsByID mountid \<in> set (Cleanup d c) \<longleftrightarrow>
      conditionalUnmountOnCleanup d c \<noteq> None \<and> GetMountID d (ID c) = Inr mountid) \<and>
   (\<forall>eConfig \<in> set (ExecCommands c). Call_unregisterExecCommand eConfig \<in> set (Cleanup d c)) \<and>
   (Call_UnmountVolumes False \<in> set (Cleanup d c) \<longleftrightarrow> BaseFS c \<noteq> []) \<and>
   (BaseFS c \<noteq> [] \<and> UnmountVolumes d c = Some err \<longrightarrow>
      Log_Warn (ID c @ '' cleanup: Failed to umount volumes: '' @ Error err) \<in> set (Cleanup d c)) \<and>
   last (Cleanup d c) = Call_CancelAttachContext"
  by (cases "conditionalUnmountOnCleanup d c"; cases "GetMountID d (ID c)";
      cases "UnmountVolumes d c") (auto simp: Cleanup_def)

theorem Cleanup_performs_every_step_witness:
  "Cleanup daemon_unmount_fails mounted_container =
     [Call_releaseNetwork, Call_UnmountIpcMounts, Call_conditionalUnmountOnCleanup,
      Call_GetMountID ''c1'', Call_cleanupMountsByID ''mount1'',
      Call_unregisterExecCommand ''exec1'', Call_unregisterExecCommand ''exec2'',
      Call_UnmountVolumes False, Log_Warn ''c1 cleanup: Failed to umount volumes: volume busy'',
      Call_CancelAttachContext] \<and>
   Call_unregisterExecCommand ''exec2'' \<in> set (Cleanup daemon_unmount_fails mounted_container) \<and>
   Log_Warn ''c1 cleanup: Failed to umount volumes: volume busy''
     \<in> set (Cleanup daemon_unmount_fails mounted_container)"
  using Cleanup_performs_every_step
    [of daemon_unmount_fails mounted_container "''mount1''" "Errorf ''volume busy''"]
  by (simp add: Cleanup_def example_defs)


section \<open>The rollback of create\<close>

text \<open>What each part of the body of \<open>create\<close> leaves in the trace and among the deferred
  functions.\<close>

lemma setRWLayer_trace:
  "setRWLayer d c = (e, c', tr) \<Longrightarrow>
     Call_ContainerRm cid b \<notin> set tr \<and> Call_removeMountPoints b \<notin> set tr \<and>
     Call_setSecurityOptions \<notin> set tr \<and> Call_createContainerPlatformSpecificSettings \<notin> set tr \<and>
     Call_GetRootUIDGID \<notin> set tr \<and> ID c' = ID c"
  by (auto simp: setRWLayer_def setRWLayer_create_def split: if_splits sum.splits)

lemma create_mounted_trace:
  "create_mounted d p c = (e, tr) \<Longrightarrow>
     Call_ContainerRm cid b \<notin> set tr \<and> Call_removeMountPoints b \<notin> set tr \<and>
     Call_setSecurityOptions \<notin> set tr \<and> Call_createContainerPlatformSpecificSettings \<in> set tr \<and>
     Call_GetRootUIDGID \<notin> set tr"
  by (auto simp: create_mounted_def split: option.splits)

lemma create_register_trace:
  "create_register d p c = (e, c', tr, ds) \<Longrightarrow>
     Call_ContainerRm cid b \<notin> set tr \<and> Call_removeMountPoints b \<notin> set tr \<and>
     Call_setSecurityOptions \<notin> set tr \<and>
     (ds = [Deferred_ContainerRm] \<and> Call_createContainerPlatformSpecificSettings \<notin> set tr \<and> e \<noteq> None \<or>
      ds = [Deferred_ContainerRm, Deferred_removeMountPoints] \<and>
      Call_createContainerPlatformSpecificSettings \<in> set tr)"
  apply (auto simp: create_register_def Let_def
      split: option.splits sum.splits prod.splits dest: create_mounted_trace)
   apply metis+
  done

lemma create_new_trace:
  assumes "create_new d p img tr0 = (e, co, tr, ds)"
    and "\<forall>cid b. Call_ContainerRm cid b \<notin> set tr0" and "\<forall>b. Call_removeMountPoints b \<notin> set tr0"
    and "Call_setSecurityOptions \<notin> set tr0"
    and "Call_createContainerPlatformSpecificSettings \<notin> set tr0"
    and "Call_GetRootUIDGID \<notin> set tr0"
  shows "Call_ContainerRm cid b \<notin> set tr \<and> Call_removeMountPoints b \<notin> set tr \<and>
     (ds = [] \<and> co = None \<and> e \<noteq> None \<and> Call_setSecurityOptions \<notin> set tr \<and>
        Call_createContainerPlatformSpecificSettings \<notin> set tr \<and> Call_GetRootUIDGID \<notin> set tr \<or>
      ds = [Deferred_ContainerRm] \<and> co \<noteq> None \<and> e \<noteq> None \<and> Call_setSecurityOptions \<in> set tr \<and>
        Call_createContainerPlatformSpecificSettings \<notin> set tr \<or>
      ds = [Deferred_ContainerRm, Deferred_removeMountPoints] \<and> co \<noteq> None \<and>
        Call_setSecurityOptions \<in> set tr \<and> Call_createContainerPlatformSpecificSettings \<in> set tr)"
  using assms
  apply (auto simp: create_new_def Let_def
      split: option.splits sum.splits prod.splits dest: setRWLayer_trace create_register_trace)
   apply metis+
  done

lemma create_body_trace:
  assumes "create_body d p = (e, co, tr, ds)"
  shows "Call_ContainerRm cid b \<notin> set tr \<and> Call_removeMountPoints b \<notin> set tr \<and>
     (ds = [] \<and> co = None \<and> e \<noteq> None \<and> Call_setSecurityOptions \<notin> set tr \<and>
        Call_createContainerPlatformSpecificSettings \<notin> set tr \<and> Call_GetRootUIDGID \<notin> set tr \<or>
      ds = [Deferred_ContainerRm] \<and> co \<noteq> None \<and> e \<noteq> None \<and> Call_setSecurityOptions \<in> set tr \<and>
        Call_createContainerPlatformSpecificSettings \<notin> set tr \<or>
      ds = [Deferred_ContainerRm, Deferred_removeMountPoints] \<and> co \<noteq> None \<and>
        Call_setSecurityOptions \<in> set tr \<and> Call_createContainerPlatformSpecificSettings \<in> set tr)"
proof (cases "Image p = []")
  case True
  with assms have "create_new d p None [] = (e, co, tr, ds)"
    by (simp add: create_body_def)
  from create_new_trace [OF this] show ?thesis by simp
next
  case False
  show ?thesis
  proof (cases "GetImage d (Image p)")
    case (Inl err)
    with False assms show ?thesis by (auto simp: create_body_def)
  next
    case (Inr imgID)
    with False assms
    have "create_new d p (Some imgID) [Call_GetImage (Image p)] = (e, co, tr, ds)"
      by (simp add: create_body_def)
    from create_new_trace [OF this] show ?thesis by simp
  qed
qed

text \<open>The body of \<open>create\<close> never calls the two collaborators of the rollback.\<close>

lemma setRWLayer_rollback_independent:
  "setRWLayer (d\<lparr>ContainerRm := rm, removeMountPoints := rmp\<rparr>) c = setRWLayer d c"
  by (simp add: setRWLayer_def setRWLayer_create_def cong: sum.case_cong)

lemma create_mounted_rollback_independent:
  "create_mounted (d\<lparr>ContainerRm := rm, removeMountPoints := rmp\<rparr>) p c = create_mounted d p c"
  by (simp add: create_mounted_def cong: option.case_cong)

lemma create_register_rollback_independent:
  "create_register (d\<lparr>ContainerRm := rm, removeMountPoints := rmp\<rparr>) p c = create_register d p c"
  by (simp add: create_register_def create_mounted_rollback_independent
      cong: option.case_cong sum.case_cong prod.case_cong)

lemma create_new_rollback_independent:
  "create_new (d\<lparr>ContainerRm := rm, removeMountPoints := rmp\<rparr>) p img tr = create_new d p img tr"
  by (simp add: create_new_def create_register_rollback_independent setRWLayer_rollback_independent
      cong: option.case_cong sum.case_cong prod.case_cong)

lemma create_body_rollback_independent:
  "create_body (d\<lparr>ContainerRm := rm, removeMountPoints := rmp\<rparr>) p = create_body d p"
  by (simp add: create_body_def create_new_rollback_independent cong: sum.case_cong)

lemma fst_create: "fst (create d p) = fst (create_body d p)"
  by (simp add: create_def split: prod.splits option.splits)

text \<open>
  The rollback read off the trace: when \<open>create\<close> fails, the forced removal is in the
  trace exactly when \<open>setSecurityOptions\<close> has been called, the release of the mount points
  exactly when the platform-specific settings have been called, and the error returned does
  not depend on how the two collaborators of the rollback answer.
\<close>

lemma create_rollback_by_trace:
  "case create d p of (retErr, retC, tr) \<Rightarrow>
     (retErr \<noteq> None \<longrightarrow>
        retC = None \<and>
        ((\<exists>cid. Call_ContainerRm cid True \<in> set tr) \<longleftrightarrow> Call_setSecurityOptions \<in> set tr) \<and>
        (Call_GetRootUIDGID \<in> set tr \<longrightarrow> (\<exists>cid. Call_ContainerRm cid True \<in> set tr)) \<and>
        (Call_removeMountPoints True \<in> set tr \<longleftrightarrow>
           Call_createContainerPlatformSpecificSettings \<in> set tr)) \<and>
     (retErr = None \<longrightarrow>
        retC \<noteq> None \<and> (\<forall>cid. Call_ContainerRm cid True \<notin> set tr) \<and>
        Call_removeMountPoints True \<notin> set tr) \<and>
     fst (create (d\<lparr>ContainerRm := rm, removeMountPoints := rmp\<rparr>) p) = retErr"
proof -
  obtain e co tr ds where body: "create_body d p = (e, co, tr, ds)"
    by (cases "create_body d p") auto
  have indep: "fst (create (d\<lparr>ContainerRm := rm, removeMountPoints := rmp\<rparr>) p) = e"
    by (simp add: fst_create create_body_rollback_independent body)
  have clean: "Call_ContainerRm cid b \<notin> set tr" "Call_removeMountPoints b \<notin> set tr" for cid b
    using create_body_trace [OF body] by blast+
  from create_body_trace [OF body, of undefined True]
  consider
    (before) "ds = []" "co = None" "e \<noteq> None" "Call_setSecurityOptions \<notin> set tr"
      "Call_createContainerPlatformSpecificSettings \<notin> set tr" "Call_GetRootUIDGID \<notin> set tr"
    | (new) c where "ds = [Deferred_ContainerRm]" "co = Some c" "e \<noteq> None"
      "Call_setSecurityOptions \<in> set tr" "Call_createContainerPlatformSpecificSettings \<notin> set tr"
    | (mounted) c where "ds = [Deferred_ContainerRm, Deferred_removeMountPoints]" "co = Some c"
      "Call_setSecurityOptions \<in> set tr" "Call_createContainerPlatformSpecificSettings \<in> set tr"
    by auto
  then show ?thesis
  proof cases
    case before
    with body clean indep show ?thesis
      by (auto simp: create_def)
  next
    case new
    then obtain err where e: "e = Some err" by auto
    from new e body clean indep show ?thesis
      by (auto simp: create_def split: option.splits)
  next
    case mounted
    show ?thesis
    proof (cases e)
      case None
      with mounted body clean indep show ?thesis
        by (auto simp: create_def)
    next
      case (Some err)
      with mounted body clean indep show ?thesis
        by (auto simp: create_def split: option.splits)
    qed
  qed
qed

lemmas create_defs =
  create_def create_body_def create_new_def create_register_def create_mounted_def
  setRWLayer_def setRWLayer_create_def

lemmas create_example_defs =
  example_params_def daemon_security_fails_def daemon_mkdir_fails_def daemon_todisk_fails_def
  daemon_image_fails_def

text \<open>
  C5 (amended). The steps of \<open>create\<close> in their order, each reached when the steps before
  it succeeded: image lookup (when an image is named), merge of the configuration,
  \<open>newContainer\<close>, \<open>setSecurityOptions\<close>, the writable layer (image store lookup when the
  container has an image, then \<open>CreateRWLayer\<close>), \<open>Register\<close>, root UID and GID, \<open>MkdirAs\<close>,
  \<open>setHostConfig\<close>, platform-specific settings, network settings, saving to disk.
  Whichever step fails, \<open>create\<close> returns the error of that step and no container.
  If the failing step is the image lookup, the merge or \<open>newContainer\<close>, nothing is removed.
  If it is any later step, before the registration (\<open>setSecurityOptions\<close>, writable layer),
  the registration itself or after it, the forced removal of the container is attempted.
  The mount points are released by \<open>create\<close> only if the failing step comes after
  \<open>setHostConfig\<close> (platform-specific settings, network settings, saving to disk).
  If no step fails, \<open>create\<close> returns the container and removes nothing.
\<close>

theorem create_failure_rollback:
  assumes "create d p = (retErr, retC, tr)"
  shows
  "(Image p \<noteq> [] \<and> GetImage d (Image p) = Inl err \<longrightarrow>
      retErr = Some err \<and> retC = None \<and>
      (\<forall>cid force. Call_ContainerRm cid force \<notin> set tr) \<and> (\<forall>b. Call_removeMountPoints b \<notin> set tr)) \<and>
   (Image p = [] \<and> img = None \<and> imgID = [] \<or>
    Image p \<noteq> [] \<and> GetImage d (Image p) = Inr imgID \<and> img = Some imgID \<longrightarrow>
    (mergeAndVerifyConfig d (Image p) img = Some err \<longrightarrow>
       retErr = Some err \<and> retC = None \<and>
       (\<forall>cid force. Call_ContainerRm cid force \<notin> set tr) \<and> (\<forall>b. Call_removeMountPoints b \<notin> set tr)) \<and>
    (mergeAndVerifyConfig d (Image p) img = None \<longrightarrow>
     (newContainer d (Name p) (Image p) imgID = Inl err \<longrightarrow>
        retErr = Some err \<and> retC = None \<and>
        (\<forall>cid force. Call_ContainerRm cid force \<notin> set tr) \<and> (\<forall>b. Call_removeMountPoints b \<notin> set tr)) \<and>
     (newContainer d (Name p) (Image p) imgID = Inr c_new \<longrightarrow>
      (setSecurityOptions d c_new (ParamsHostConfig p) = (Some err, c_sec) \<longrightarrow>
         retErr = Some err \<and> retC = None \<and> Call_Register \<notin> set tr \<and>
         Call_ContainerRm (ID c_sec) True \<in> set tr \<and> (\<forall>b. Call_removeMountPoints b \<notin> set tr)) \<and>
      (setSecurityOptions d c_new (ParamsHostConfig p) = (None, c_sec) \<longrightarrow>
       (ImageID c_sec \<noteq> [] \<and> imageStore_Get d (ImageID c_sec) = Inl err \<longrightarrow>
          retErr = Some err \<and> retC = None \<and> Call_Register \<notin> set tr \<and>
          Call_ContainerRm (ID c_sec) True \<in> set tr \<and> (\<forall>b. Call_removeMountPoints b \<notin> set tr)) \<and>
       (ImageID c_sec = [] \<and> layerID = [] \<or>
        ImageID c_sec \<noteq> [] \<and> imageStore_Get d (ImageID c_sec) = Inr layerID \<longrightarrow>
        (CreateRWLayer d (ID c_sec) layerID (MountLabel c_sec) = Inl err \<longrightarrow>
           retErr = Some err \<and> retC = None \<and> Call_Register \<notin> set tr \<and>
           Call_ContainerRm (ID c_sec) True \<in> set tr \<and> (\<forall>b. Call_removeMountPoints b \<notin> set tr)) \<and>
        (CreateRWLayer d (ID c_sec) layerID (MountLabel c_sec) = Inr rwLayer \<longrightarrow>
         (Register d (c_sec\<lparr>RWLayer := Some rwLayer\<rparr>) = Some err \<longrightarrow>
            retErr = Some err \<and> retC = None \<and>
            Call_ContainerRm (ID c_sec) True \<in> set tr \<and> (\<forall>b. Call_removeMountPoints b \<notin> set tr)) \<and>
         (Register d (c_sec\<lparr>RWLayer := Some rwLayer\<rparr>) = None \<longrightarrow>
          (GetRootUIDGID d = Inl err \<longrightarrow>
             retErr = Some err \<and> retC = None \<and> Call_Register \<in> set tr \<and>
             Call_ContainerRm (ID c_sec) True \<in> set tr \<and> (\<forall>b. Call_removeMountPoints b \<notin> set tr)) \<and>
          (GetRootUIDGID d = Inr (rootUID, rootGID) \<longrightarrow>
           (MkdirAs d (Root c_sec) rootUID rootGID = Some err \<longrightarrow>
              retErr = Some err \<and> retC = None \<and> Call_Register \<in> set tr \<and>
              Call_ContainerRm (ID c_sec) True \<in> set tr \<and> (\<forall>b. Call_removeMountPoints b \<notin> set tr)) \<and>
           (MkdirAs d (Root c_sec) rootUID rootGID = None \<longrightarrow>
            (setHostConfig d (c_sec\<lparr>RWLayer := Some rwLayer\<rparr>) (ParamsHostConfig p) = (Some err, c_host) \<longrightarrow>
               retErr = Some err \<and> retC = None \<and> Call_Register \<in> set tr \<and>
               Call_ContainerRm (ID c_host) True \<in> set tr \<and> (\<forall>b. Call_removeMountPoints b \<notin> set tr)) \<and>
            (setHostConfig d (c_sec\<lparr>RWLayer := Some rwLayer\<rparr>) (ParamsHostConfig p) = (None, c_host) \<longrightarrow>
             (createContainerPlatformSpecificSettings d c_host = Some err \<longrightarrow>
                retErr = Some err \<and> retC = None \<and> Call_Register \<in> set tr \<and>
                Call_ContainerRm (ID c_host) True \<in> set tr \<and> Call_removeMountPoints True \<in> set tr) \<and>
             (createContainerPlatformSpecificSettings d c_host = None \<longrightarrow>
              (updateContainerNetworkSettings d c_host (EndpointsConfig p) = Some err \<longrightarrow>
                 retErr = Some err \<and> retC = None \<and> Call_Register \<in> set tr \<and>
                 Call_ContainerRm (ID c_host) True \<in> set tr \<and> Call_removeMountPoints True \<in> set tr) \<and>
              (updateContainerNetworkSettings d c_host (EndpointsConfig p) = None \<longrightarrow>
               (ToDiskLocking d c_host = Some err \<longrightarrow>
                  retErr = Some err \<and> retC = None \<and> Call_Register \<in> set tr \<and>
                  Call_ContainerRm (ID c_host) True \<in> set tr \<and> Call_removeMountPoints True \<in> set tr) \<and>
               (ToDiskLocking d c_host = None \<longrightarrow>
                retErr = None \<and> retC = Some c_host \<and>
                (\<forall>cid force. Call_ContainerRm cid force \<notin> set tr) \<and> (\<forall>b. Call_removeMountPoints b \<notin> set tr))))))))))))))"
  using assms
  apply (intro conjI impI)
  apply (auto simp: create_defs Let_def)
  done

theorem create_failure_rollback_witness:
  "(case create daemon_todisk_fails example_params of (retErr, retC, tr) \<Rightarrow>
      retErr = Some (Errorf ''disk full'') \<and> retC = None \<and> Call_Register \<in> set tr \<and>
      Call_ContainerRm ''c1'' True \<in> set tr \<and> Call_removeMountPoints True \<in> set tr) \<and>
   (case create daemon_mkdir_fails example_params of (retErr, retC, tr) \<Rightarrow>
      retErr = Some (Errorf ''mkdir failed'') \<and> retC = None \<and> Call_Register \<in> set tr \<and>
      Call_ContainerRm ''c1'' True \<in> set tr \<and> (\<forall>b. Call_removeMountPoints b \<notin> set tr)) \<and>
   (case create daemon_image_fails example_params of (retErr, retC, tr) \<Rightarrow>
      retErr = Some (Errorf ''no such image'') \<and> retC = None \<and>
      (\<forall>cid force. Call_ContainerRm cid force \<notin> set tr)) \<and>
   (case create example_daemon example_params of (retErr, retC, tr) \<Rightarrow>
      retErr = None \<and> retC \<noteq> None \<and> (\<forall>cid force. Call_ContainerRm cid force \<notin> set tr))"
proof -
  let ?c = "example_container\<lparr>ImageID := ''sha256:0001''\<rparr>"
  have todisk: "case create daemon_todisk_fails example_params of (retErr, retC, tr) \<Rightarrow>
      retErr = Some (Errorf ''disk full'') \<and> retC = None \<and> Call_Register \<in> set tr \<and>
      Call_ContainerRm ''c1'' True \<in> set tr \<and> Call_removeMountPoints True \<in> set tr"
  proof -
    obtain retErr retC tr where run: "create daemon_todisk_fails example_params = (retErr, retC, tr)"
      by (cases "create daemon_todisk_fails example_params") auto
    have "retErr = Some (Errorf ''disk full'') \<and> retC = None \<and> Call_Register \<in> set tr \<and>
      Call_ContainerRm ''c1'' True \<in> set tr \<and> Call_removeMountPoints True \<in> set tr"
      using create_failure_rollback
        [OF run, where err = "Errorf ''disk full''" and img = "Some ''sha256:0001''"
         and imgID = "''sha256:0001''" and c_new = ?c and c_sec = ?c
         and layerID = "''chain1''" and rwLayer = "''rw1''" and rootUID = 0 and rootGID = 0
         and c_host = "?c\<lparr>RWLayer := Some ''rw1''\<rparr>"]
      by (simp add: create_example_defs example_defs)
    with run show ?thesis by simp
  qed
  have mkdir: "case create daemon_mkdir_fails example_params of (retErr, retC, tr) \<Rightarrow>
      retErr = Some (Errorf ''mkdir failed'') \<and> retC = None \<and> Call_Register \<in> set tr \<and>
      Call_ContainerRm ''c1'' True \<in> set tr \<and> (\<forall>b. Call_removeMountPoints b \<notin> set tr)"
  proof -
    obtain retErr retC tr where run: "create daemon_mkdir_fails example_params = (retErr, retC, tr)"
      by (cases "create daemon_mkdir_fails example_params") auto
    have "retErr = Some (Errorf ''mkdir failed'') \<and> retC = None \<and> Call_Register \<in> set tr \<and>
      Call_ContainerRm ''c1'' True \<in> set tr \<and> (\<forall>b. Call_removeMountPoints b \<notin> set tr)"
      using create_failure_rollback
        [OF run, where err = "Errorf ''mkdir failed''" and img = "Some ''sha256:0001''"
         and imgID = "''sha256:0001''" and c_new = ?c and c_sec = ?c
         and layerID = "''chain1''" and rwLayer = "''rw1''" and rootUID = 0 and rootGID = 0
         and c_host = "?c\<lparr>RWLayer := Some ''rw1''\<rparr>"]
      by (simp add: create_example_defs example_defs)
    with run show ?thesis by simp
  qed
  have image: "case create daemon_image_fails example_params of (retErr, retC, tr) \<Rightarrow>
      retErr = Some (Errorf ''no such image'') \<and> retC = None \<and>
      (\<forall>cid force. Call_ContainerRm cid force \<notin> set tr)"
  proof -
    obtain retErr retC tr where run: "create daemon_image_fails example_params = (retErr, retC, tr)"
      by (cases "create daemon_image_fails example_params") auto
    have "retErr = Some (Errorf ''no such image'') \<and> retC = None \<and>
      (\<forall>cid force. Call_ContainerRm cid force \<notin> set tr)"
      using create_failure_rollback
        [OF run, where err = "Errorf ''no such image''"]
      by (simp add: create_example_defs example_defs)
    with run show ?thesis by simp
  qed
  have success: "case create example_daemon example_params of (retErr, retC, tr) \<Rightarrow>
      retErr = None \<and> retC \<noteq> None \<and> (\<forall>cid force. Call_ContainerRm cid force \<notin> set tr)"
  proof -
    obtain retErr retC tr where run: "create example_daemon example_params = (retErr, retC, tr)"
      by (cases "create example_daemon example_params") auto
    have "retErr = None \<and> retC \<noteq> None \<and> (\<forall>cid force. Call_ContainerRm cid force \<notin> set tr)"
      using create_failure_rollback
        [OF run, where err = "Errorf ''none''" and img = "Some ''sha256:0001''"
         and imgID = "''sha256:0001''" and c_new = ?c and c_sec = ?c
         and layerID = "''chain1''" and rwLayer = "''rw1''" and rootUID = 0 and rootGID = 0
         and c_host = "?c\<lparr>RWLayer := Some ''rw1''\<rparr>"]
      by (simp add: create_example_defs example_defs)
    with run show ?thesis by simp
  qed
  from todisk mkdir image success show ?thesis by blast
qed

text \<open>
  C5, as stated, fails: when \<open>setSecurityOptions\<close> fails, the container has not been
  registered (the trace holds no call of \<open>Register\<close>), yet its forced removal is attempted.
\<close>

theorem create_before_registration_counterexample:
  "(case create daemon_security_fails example_params of (retErr, retC, tr) \<Rightarrow>
      retErr = Some (Errorf ''invalid label'') \<and> Call_Register \<notin> set tr \<and>
      Call_ContainerRm ''c1'' True \<in> set tr)"
  by (simp add: create_defs create_example_defs example_defs)


section \<open>handleEvent: the exit of an additional process\<close>

lemma removeFifo_effects:
  "a \<in> set (removeFifo rt pid p i) \<Longrightarrow>
     (\<exists>msg. a = Logrus_Warn msg) \<or>
     a = Call_Remove (fifo rt (process_dir p) (process_friendlyName p) i)"
  by (auto simp: removeFifo_def split: option.splits)

lemma cleanProcess_effects:
  assumes "a \<in> set (snd (cleanProcess rt pid ctr))"
  shows "(\<exists>msg. a = Logrus_Warn msg) \<or>
     (\<exists>p i. processes ctr pid = Some p \<and> i < 3 \<and>
            a = Call_Remove (fifo rt (process_dir p) (process_friendlyName p) i))"
proof (cases "processes ctr pid")
  case None
  with assms show ?thesis by (simp add: cleanProcess_def)
next
  case (Some p)
  with assms obtain i where i: "i \<in> set [0, 1, 2 :: nat]" "a \<in> set (removeFifo rt pid p i)"
    unfolding cleanProcess_def by auto
  from i(1) have "i < 3" by auto
  with removeFifo_effects [OF i(2)] Some show ?thesis by blast
qed

text \<open>
  C6. For an Exit event whose process identifier is not the name of the init process:
  \<open>handleEvent\<close> returns no error; the StateInfo that the queued function delivers to the
  bridge has the state \<open>StateExitProcess\<close>, the process identifier of the event and its
  exit status; the restart manager is not consulted and no goroutine is started; the
  container stays in the registry of the client; and the only things removed are the
  three pipes of that process (the directory of the container is not touched), the
  process being dropped from the processes of the container.
\<close>

theorem handleEvent_exit_of_process:
  assumes "Type e = StateExit" and "Pid e \<noteq> InitFriendlyName rt"
  shows "case handleEvent rt e ctr clnt of (r, ctr', clnt', tr) \<Rightarrow>
     r = None \<and>
     cells clnt' = cells clnt @
       [\<lparr>State = StateExitProcess, Pid' = 0, ExitCode' = Status e, ProcessID = Pid e,
         OOMKilled = oom ctr\<rparr>] \<and>
     q clnt' = q clnt @ [(Id' e, Closure_event (length (cells clnt)) e)] \<and>
     hd (run_closure rt clnt' (Closure_event (length (cells clnt)) e)) =
       Call_StateChanged (Id' e)
         \<lparr>State = StateExitProcess, Pid' = 0, ExitCode' = Status e, ProcessID = Pid e,
          OOMKilled = oom ctr\<rparr> \<and>
     (\<forall>code manual t. Call_ShouldRestart code manual t \<notin> set tr) \<and>
     goroutines clnt' = goroutines clnt \<and>
     containers clnt' = containers clnt \<and>
     processes ctr' = (processes ctr)(Pid e := None) \<and>
     (\<forall>path. Call_RemoveAll path \<notin> set tr) \<and>
     (\<forall>path. Call_Remove path \<in> set tr \<longrightarrow>
        (\<exists>p i. processes ctr (Pid e) = Some p \<and> i < 3 \<and>
               path = fifo rt (process_dir p) (process_friendlyName p) i))"
proof -
  let ?st = "\<lparr>State = StateExitProcess, Pid' = 0, ExitCode' = Status e, ProcessID = Pid e,
              OOMKilled = oom ctr\<rparr>"
  have whole: "handleEvent rt e ctr clnt =
      (None, fst (cleanProcess rt (Pid e) ctr),
       clnt\<lparr>cells := cells clnt @ [?st],
            q := q clnt @ [(Id' e, Closure_event (length (cells clnt)) e)]\<rparr>,
       [Client_lock (containerID ctr)] @ snd (cleanProcess rt (Pid e) ctr)
       @ [Client_unlock (containerID ctr)])"
    using assms
    by (simp add: handleEvent_def handleEvent_restart_def handleEvent_remove_def Let_def)
  note removed = cleanProcess_effects [of _ rt "Pid e" ctr]
  have a: "Call_ShouldRestart code manual t \<notin> set (snd (cleanProcess rt (Pid e) ctr))" for code manual t
    using removed by blast
  have b: "Call_RemoveAll path \<notin> set (snd (cleanProcess rt (Pid e) ctr))" for path
    using removed by blast
  have c: "Call_Remove path \<in> set (snd (cleanProcess rt (Pid e) ctr)) \<Longrightarrow>
      (\<exists>p i. processes ctr (Pid e) = Some p \<and> i < 3 \<and>
             path = fifo rt (process_dir p) (process_friendlyName p) i)" for path
    using removed [of "Call_Remove path"] by auto
  show ?thesis
    unfolding whole using a b c
    by (auto simp: deliver_def cleanProcess_def)
qed

lemmas runtime_defs =
  example_runtime_def example_ctr_def example_client_def exit_event_def oom_event_def
  runtime_no_spec_def restarting_ctr_def restart_always_def

theorem handleEvent_exit_of_process_witness:
  "(case handleEvent example_runtime (exit_event ''exec1'' 3) example_ctr example_client
      of (r, ctr', clnt', tr) \<Rightarrow>
        r = None \<and>
        cells clnt' = [\<lparr>State = StateExitProcess, Pid' = 0, ExitCode' = 3, ProcessID = ''exec1'',
                        OOMKilled = False\<rparr>] \<and>
        containers clnt' = {''c1''} \<and>
        processes ctr' ''exec1'' = None \<and>
        tr = [Client_lock ''c1'', Call_Remove ''/run/c1/exec1-0'', Call_Remove ''/run/c1/exec1-1'',
              Call_Remove ''/run/c1/exec1-2'', Client_unlock ''c1''])"
  using handleEvent_exit_of_process
    [where e = "exit_event ''exec1'' 3" and rt = example_runtime and ctr = example_ctr
       and clnt = example_client]
  by (simp add: handleEvent_def handleEvent_restart_def handleEvent_remove_def cleanProcess_def
      removeFifo_def runtime_defs split: prod.splits)

section \<open>start: an unreadable spec\<close>

text \<open>
  C10. When \<open>spec\<close> fails (the file of the spec cannot be read, or cannot be parsed),
  \<open>start\<close> returns no error and has done nothing: no pipe is opened, no create call is
  issued, the container is not put in the registry and no StateInfo is delivered. A start
  whose every step succeeds returns no error either, so the result alone does not tell the
  two apart.
\<close>

theorem start_spec_failure_returns_nil:
  "(spec rt ctr = Inl err \<longrightarrow> start rt ctr clnt = (None, ctr, clnt, [])) \<and>
   (ReadFile rt (Join rt (dir ctr) (configFilename rt)) = Inl err \<longrightarrow> spec rt ctr = Inl err) \<and>
   (ReadFile rt (Join rt (dir ctr) (configFilename rt)) = Inr dt \<and> Unmarshal rt dt = Inl err
      \<longrightarrow> spec rt ctr = Inl err) \<and>
   (spec rt ctr = Inr sp \<and> openFifos rt (Terminal sp) = Inr iopipe \<and>
    CreateContainer rt
      \<lparr>Request_Id = containerID ctr, BundlePath = dir ctr,
       Stdin = fifo rt (dir ctr) (friendlyName ctr) 0,
       Stdout = fifo rt (dir ctr) (friendlyName ctr) 1,
       Stderr = fifo rt (dir ctr) (friendlyName ctr) 2,
       NoPivotRoot = (Getenv rt ''DOCKER_RAMDISK'' \<noteq> [])\<rparr> = Inr pid \<and>
    AttachStreams rt (containerID ctr) iopipe = None \<and>
    StateChanged rt (containerID ctr)
      \<lparr>State = StateStart, Pid' = pid, ExitCode' = 0, ProcessID = [], OOMKilled = False\<rparr> = None
      \<longrightarrow> fst (start rt ctr clnt) = None \<and>
          Call_StateChanged (containerID ctr)
            \<lparr>State = StateStart, Pid' = pid, ExitCode' = 0, ProcessID = [], OOMKilled = False\<rparr>
            \<in> set (snd (snd (snd (start rt ctr clnt)))))"
  by (simp add: start_def spec_def Let_def)

theorem start_spec_failure_returns_nil_witness:
  "start runtime_no_spec example_ctr (example_client\<lparr>containers := {}\<rparr>) =
     (None, example_ctr, example_client\<lparr>containers := {}\<rparr>, []) \<and>
   fst (start example_runtime example_ctr (example_client\<lparr>containers := {}\<rparr>)) = None \<and>
   containers (fst (snd (snd (start example_runtime example_ctr (example_client\<lparr>containers := {}\<rparr>)))))
     = {''c1''}"
  using start_spec_failure_returns_nil
    [where rt = runtime_no_spec and ctr = example_ctr
       and err = "Errorf ''open config.json: no such file''"
       and clnt = "example_client\<lparr>containers := {}\<rparr>"]
    start_spec_failure_returns_nil
    [where rt = example_runtime and ctr = example_ctr
       and clnt = "example_client\<lparr>containers := {}\<rparr>" and dt = "''{}''"
       and sp = "\<lparr>Terminal = False\<rparr>" and iopipe = 7 and pid = 4242]
  by (simp add: start_def spec_def runtime_defs)


section \<open>The flag oom\<close>

text \<open>What one call does to \<open>oom\<close> and to the cells allocated before it.\<close>

lemma handleEvent_restart_frame:
  assumes "handleEvent_restart rt e cell st ctr clnt = (st', ctr', clnt', tr)"
  shows "oom ctr' = oom ctr \<and> cells clnt' = cells clnt \<and> q clnt' = q clnt \<and>
         OOMKilled st' = OOMKilled st \<and> processes ctr' = processes ctr"
  using assms
  by (auto simp: handleEvent_restart_def split: if_splits option.splits prod.splits)

lemma handleEvent_remove_frame:
  assumes "handleEvent_remove rt e st ctr clnt = (ctr', clnt', tr)"
  shows "oom ctr' = oom ctr \<and> cells clnt' = cells clnt \<and> q clnt' = q clnt"
  using assms
  by (auto simp: handleEvent_remove_def cleanProcess_def split: if_splits)

lemma handleEvent_cells:
  assumes "handleEvent rt e ctr clnt = (r, ctr', clnt', tr)"
  shows "oom ctr' = (oom ctr \<or> Type e = StateOOM)"
    and "Type e = StateExit \<or> Type e = StatePause \<or> Type e = StateResume \<or> Type e = StateOOM \<Longrightarrow>
           \<exists>st. cells clnt' = cells clnt @ [st] \<and> OOMKilled st = (Type e = StateExit \<and> oom ctr) \<and>
                q clnt' = q clnt @ [(Id' e, Closure_event (length (cells clnt)) e)]"
    and "\<exists>sts. cells clnt' = cells clnt @ sts"
proof -
  let ?st = "\<lparr>State = Type e, Pid' = 0, ExitCode' = Status e, ProcessID = [],
              OOMKilled = (Type e = StateExit \<and> oom ctr)\<rparr>"
  let ?ctr1 = "if Type e = StateOOM then ctr\<lparr>oom := True\<rparr> else ctr"
  let ?st1 = "if Type e = StateExit \<and> Pid e \<noteq> InitFriendlyName rt
              then ?st\<lparr>ProcessID := Pid e, State := StateExitProcess\<rparr> else ?st"
  obtain st2 ctr2 clnt2 tr2 where
    restart: "handleEvent_restart rt e (length (cells clnt)) ?st1 ?ctr1 clnt = (st2, ctr2, clnt2, tr2)"
    by (cases "handleEvent_restart rt e (length (cells clnt)) ?st1 ?ctr1 clnt") auto
  obtain ctr3 clnt3 tr3 where
    remove: "handleEvent_remove rt e st2 ctr2 clnt2 = (ctr3, clnt3, tr3)"
    by (cases "handleEvent_remove rt e st2 ctr2 clnt2") auto
  note f1 = handleEvent_restart_frame [OF restart]
  note f2 = handleEvent_remove_frame [OF remove]
  show "oom ctr' = (oom ctr \<or> Type e = StateOOM)"
    using assms restart remove f1 f2
    by (auto simp: handleEvent_def Let_def split: if_splits)
  show "\<exists>st. cells clnt' = cells clnt @ [st] \<and> OOMKilled st = (Type e = StateExit \<and> oom ctr) \<and>
             q clnt' = q clnt @ [(Id' e, Closure_event (length (cells clnt)) e)]"
    if "Type e = StateExit \<or> Type e = StatePause \<or> Type e = StateResume \<or> Type e = StateOOM"
    using that assms restart remove f1 f2
    by (auto simp: handleEvent_def Let_def split: if_splits)
  show "\<exists>sts. cells clnt' = cells clnt @ sts"
    using assms restart remove f1 f2
    by (auto simp: handleEvent_def Let_def split: if_splits)
qed

lemma start_frame:
  assumes "start rt ctr clnt = (r, ctr', clnt', tr)"
  shows "oom ctr' = oom ctr \<and> cells clnt' = cells clnt"
  using assms
  by (auto simp: start_def Let_def split: sum.splits option.splits)

lemma waiter_frame:
  assumes "waiter rt err cell e ctr clnt = (ctr', clnt', tr)"
  shows "oom ctr' = oom ctr \<and> length (cells clnt') = length (cells clnt) \<and>
         (\<forall>i. OOMKilled (cells clnt' ! i) = OOMKilled (cells clnt ! i))"
proof (cases err)
  case None
  obtain r c2 cl2 tr2 where s: "start rt (ctr\<lparr>restarting := False\<rparr>) clnt = (r, c2, cl2, tr2)"
    by (cases "start rt (ctr\<lparr>restarting := False\<rparr>) clnt") auto
  from start_frame [OF s] s None assms show ?thesis
    by (auto simp: waiter_def Let_def)
next
  case (Some er)
  have "OOMKilled ((cells clnt)[cell := (cells clnt ! cell)\<lparr>State := StateExit\<rparr>] ! i)
          = OOMKilled (cells clnt ! i)" for i
    by (cases "i = cell"; cases "cell < length (cells clnt)") (auto simp: list_update_beyond)
  with Some assms show ?thesis
    by (auto simp: waiter_def Let_def)
qed

text \<open>A step keeps the cells allocated so far and what they say of the memory.\<close>

lemma do_step_frame:
  assumes "do_step x (ctr, clnt) = (ctr', clnt')"
  shows "oom ctr' = (oom ctr \<or> (\<exists>e. snd x = Step_handleEvent e \<and> Type e = StateOOM))"
    and "length (cells clnt) \<le> length (cells clnt')"
    and "i < length (cells clnt) \<Longrightarrow> OOMKilled (cells clnt' ! i) = OOMKilled (cells clnt ! i)"
proof -
  obtain rt s where x: "x = (rt, s)" by (cases x)
  show "oom ctr' = (oom ctr \<or> (\<exists>e. snd x = Step_handleEvent e \<and> Type e = StateOOM))"
    using assms x
    by (cases s) (auto split: prod.splits dest: handleEvent_cells(1) waiter_frame start_frame)
  show "length (cells clnt) \<le> length (cells clnt')"
    using assms x
    by (cases s) (auto split: prod.splits dest: handleEvent_cells(3) waiter_frame start_frame)
  show "OOMKilled (cells clnt' ! i) = OOMKilled (cells clnt ! i)" if "i < length (cells clnt)"
    using assms x that
    by (cases s)
       (auto split: prod.splits simp: nth_append dest: handleEvent_cells(3) waiter_frame start_frame)
qed

lemma run_frame:
  assumes "run xs (ctr, clnt) = (ctr', clnt')"
  shows "oom ctr' = (oom ctr \<or> (\<exists>rt e. (rt, Step_handleEvent e) \<in> set xs \<and> Type e = StateOOM))
       \<and> length (cells clnt) \<le> length (cells clnt')
       \<and> (\<forall>i < length (cells clnt). OOMKilled (cells clnt' ! i) = OOMKilled (cells clnt ! i))"
  using assms
proof (induction xs arbitrary: ctr clnt)
  case Nil
  then show ?case by simp
next
  case (Cons x xs)
  obtain c1 cl1 where s: "do_step x (ctr, clnt) = (c1, cl1)"
    by (cases "do_step x (ctr, clnt)")
  with Cons.prems have r: "run xs (c1, cl1) = (ctr', clnt')" by simp
  note ih = Cons.IH [OF r]
  note st = do_step_frame [OF s]
  have "(\<exists>rt e. (rt, Step_handleEvent e) \<in> set (x # xs) \<and> Type e = StateOOM) \<longleftrightarrow>
        (\<exists>e. snd x = Step_handleEvent e \<and> Type e = StateOOM) \<or>
        (\<exists>rt e. (rt, Step_handleEvent e) \<in> set xs \<and> Type e = StateOOM)"
    by (cases x) auto
  with ih st show ?case
    by (auto simp: le_trans)
qed


text \<open>
  C7. Take any history of one container (\<open>earlier\<close>), an event handled after it, and
  anything that happens afterwards (\<open>later\<close>). If the event is an OOM event, the flag
  \<open>oom\<close> is set and stays set, and the StateInfo of the OOM event itself says
  \<open>OOMKilled = False\<close>. If the event is an Exit event, its StateInfo says \<open>OOMKilled = True\<close>
  exactly when the flag was set at the beginning or an OOM event was handled in the
  history; so every Exit event after an OOM event reports true, and an Exit event of a
  container that starts with the flag unset and never saw an OOM event reports false.
  The StateInfo is the one that the queued function passes to the bridge, whenever the
  queue runs it.
\<close>

theorem oom_flag_is_sticky:
  assumes "run earlier (ctr, clnt) = (ctr_a, clnt_a)"
    and "handleEvent rt e ctr_a clnt_a = (r, ctr_b, clnt_b, tr)"
    and "run later (ctr_b, clnt_b) = (ctr_c, clnt_c)"
  shows "(Type e = StateOOM \<longrightarrow>
            oom ctr_b \<and> oom ctr_c \<and> \<not> OOMKilled (cells clnt_c ! length (cells clnt_a))) \<and>
         (Type e = StateExit \<longrightarrow>
            (OOMKilled (cells clnt_c ! length (cells clnt_a)) \<longleftrightarrow>
               oom ctr \<or> (\<exists>rt' e'. (rt', Step_handleEvent e') \<in> set earlier \<and> Type e' = StateOOM))) \<and>
         (Type e = StateOOM \<or> Type e = StateExit \<longrightarrow>
            q clnt_b = q clnt_a @ [(Id' e, Closure_event (length (cells clnt_a)) e)] \<and>
            hd (run_closure rt_c clnt_c (Closure_event (length (cells clnt_a)) e)) =
              Call_StateChanged (Id' e) (cells clnt_c ! length (cells clnt_a)))"
proof -
  note before = run_frame [OF assms(1)]
  note after = run_frame [OF assms(3)]
  note now = handleEvent_cells [OF assms(2)]
  have delivered: "hd (run_closure rt_c clnt_c (Closure_event n e)) = Call_StateChanged (Id' e) (cells clnt_c ! n)" for n
    by (simp add: deliver_def)
  show ?thesis
  proof (cases "Type e = StateOOM \<or> Type e = StateExit")
    case False
    then show ?thesis by simp
  next
    case True
    with now(2) obtain st where st: "cells clnt_b = cells clnt_a @ [st]"
      "OOMKilled st = (Type e = StateExit \<and> oom ctr_a)"
      "q clnt_b = q clnt_a @ [(Id' e, Closure_event (length (cells clnt_a)) e)]"
      by blast
    from st(1) have "length (cells clnt_a) < length (cells clnt_b)" by simp
    with after have "OOMKilled (cells clnt_c ! length (cells clnt_a))
        = OOMKilled (cells clnt_b ! length (cells clnt_a))"
      by blast
    with st(1,2) have kept: "OOMKilled (cells clnt_c ! length (cells clnt_a))
        = (Type e = StateExit \<and> oom ctr_a)"
      by simp
    from now(1) after have "Type e = StateOOM \<Longrightarrow> oom ctr_b \<and> oom ctr_c"
      by blast
    with kept before st(3) delivered show ?thesis
      by auto
  qed
qed

theorem oom_flag_is_sticky_witness:
  "OOMKilled
     (cells (fst (snd (snd (handleEvent example_runtime (exit_event ''init'' 137)
        (fst (run [(example_runtime, Step_handleEvent oom_event)] (example_ctr, example_client)))
        (snd (run [(example_runtime, Step_handleEvent oom_event)] (example_ctr, example_client)))))))
      ! 1) \<and>
   \<not> OOMKilled
     (cells (fst (snd (snd (handleEvent example_runtime (exit_event ''init'' 0)
        example_ctr example_client)))) ! 0) \<and>
   oom (fst (snd (handleEvent example_runtime oom_event example_ctr example_client)))"
proof -
  let ?s1 = "run [(example_runtime, Step_handleEvent oom_event)] (example_ctr, example_client)"
  let ?h1 = "handleEvent example_runtime (exit_event ''init'' 137) (fst ?s1) (snd ?s1)"
  let ?h2 = "handleEvent example_runtime (exit_event ''init'' 0) example_ctr example_client"
  let ?h3 = "handleEvent example_runtime oom_event example_ctr example_client"
  have len: "length (cells (snd ?s1)) = 1"
    by (simp add: handleEvent_def handleEvent_restart_def handleEvent_remove_def runtime_defs)
  have a: "OOMKilled (cells (fst (snd (snd ?h1))) ! 1)"
    using oom_flag_is_sticky
      [where earlier = "[(example_runtime, Step_handleEvent oom_event)]"
         and ctr = example_ctr and clnt = example_client
         and ctr_a = "fst ?s1" and clnt_a = "snd ?s1"
         and rt = example_runtime and e = "exit_event ''init'' 137"
         and r = "fst ?h1" and ctr_b = "fst (snd ?h1)" and clnt_b = "fst (snd (snd ?h1))"
         and tr = "snd (snd (snd ?h1))"
         and later = "[]" and ctr_c = "fst (snd ?h1)" and clnt_c = "fst (snd (snd ?h1))"]
    unfolding len
    by (simp add: exit_event_def oom_event_def)
  have b: "\<not> OOMKilled (cells (fst (snd (snd ?h2))) ! 0)"
    using oom_flag_is_sticky
      [where earlier = "[]" and ctr = example_ctr and clnt = example_client
         and ctr_a = example_ctr and clnt_a = example_client
         and rt = example_runtime and e = "exit_event ''init'' 0"
         and r = "fst ?h2" and ctr_b = "fst (snd ?h2)" and clnt_b = "fst (snd (snd ?h2))"
         and tr = "snd (snd (snd ?h2))"
         and later = "[]" and ctr_c = "fst (snd ?h2)" and clnt_c = "fst (snd (snd ?h2))"]
    by (simp add: exit_event_def example_ctr_def example_client_def)
  have c: "oom (fst (snd ?h3))"
    using oom_flag_is_sticky
      [where earlier = "[]" and ctr = example_ctr and clnt = example_client
         and ctr_a = example_ctr and clnt_a = example_client
         and rt = example_runtime and e = oom_event
         and r = "fst ?h3" and ctr_b = "fst (snd ?h3)" and clnt_b = "fst (snd (snd ?h3))"
         and tr = "snd (snd (snd ?h3))"
         and later = "[]" and ctr_c = "fst (snd ?h3)" and clnt_c = "fst (snd (snd ?h3))"]
    by (simp add: oom_event_def)
  from a b c show ?thesis by blast
qed


section \<open>handleEvent: the restart of a container\<close>

lemma clean_effects:
  "a \<in> set (snd (clean rt ctr)) \<Longrightarrow> a = Call_Lstat (dir ctr) \<or> a = Call_RemoveAll (dir ctr)"
  by (auto simp: clean_def split: if_splits option.splits)

text \<open>The whole of \<open>handleEvent\<close> for the exit of the init process with a restart manager,
  by the answer of the manager.\<close>

lemma handleEvent_exit_with_manager:
  assumes "Type e = StateExit" and "Pid e = InitFriendlyName rt"
    and "restartManager ctr = Some rm"
    and "rm (Status e) False (Now rt - startedAt ctr) = (restart, wait, err)"
  shows "handleEvent rt e ctr clnt =
     (if err = None \<and> restart
      then (None, ctr\<lparr>restarting := True\<rparr>,
            clnt\<lparr>containers := containers clnt - {Id' e},
                 goroutines := goroutines clnt @ [Goroutine_wait wait (length (cells clnt)) e],
                 cells := cells clnt @
                   [\<lparr>State = StateRestart, Pid' = 0, ExitCode' = Status e, ProcessID = [],
                     OOMKilled = oom ctr\<rparr>],
                 q := q clnt @ [(Id' e, Closure_event (length (cells clnt)) e)]\<rparr>,
            [Client_lock (containerID ctr),
             Call_ShouldRestart (Status e) False (Now rt - startedAt ctr),
             Client_unlock (containerID ctr)])
      else (None, ctr,
            clnt\<lparr>containers := containers clnt - {Id' e},
                 cells := cells clnt @
                   [\<lparr>State = StateExit, Pid' = 0, ExitCode' = Status e, ProcessID = [],
                     OOMKilled = oom ctr\<rparr>],
                 q := q clnt @ [(Id' e, Closure_event (length (cells clnt)) e)]\<rparr>,
            [Client_lock (containerID ctr),
             Call_ShouldRestart (Status e) False (Now rt - startedAt ctr)]
            @ (case err of None \<Rightarrow> []
               | Some er \<Rightarrow> [Logrus_Warn (''container '' @ containerID ctr @ '' '' @ Error er)])
            @ snd (clean rt ctr) @ [Client_unlock (containerID ctr)]))"
  using assms
  by (cases err)
     (simp_all add: handleEvent_def handleEvent_restart_def handleEvent_remove_def Let_def)

text \<open>
  C8. For an Exit event of the init process on a container with a restart manager, the
  manager is consulted, and only with the exit status of the event, "not stopped manually"
  and the time elapsed since \<open>startedAt\<close>. If it answers "restart" without an error: the
  state delivered is \<open>StateRestart\<close>, the flag \<open>restarting\<close> is set, the container is
  removed from the registry of the client, the directory is left alone, and a goroutine is
  started on the channel of the answer. When the channel delivers no error, the goroutine
  clears \<open>restarting\<close> and calls \<open>start\<close>; when it delivers an error, the goroutine clears
  \<open>restarting\<close>, sets the state of the same StateInfo to \<open>StateExit\<close>, cleans the directory,
  queues the delivery of that StateInfo and does not call \<open>start\<close>.
\<close>

theorem handleEvent_restart_and_waiter:
  assumes "Type e = StateExit" and "Pid e = InitFriendlyName rt"
    and "restartManager ctr = Some rm"
    and "handleEvent rt e ctr clnt = (r, ctr', clnt', tr)"
  shows "(\<forall>code manual t. Call_ShouldRestart code manual t \<in> set tr \<longleftrightarrow>
            code = Status e \<and> \<not> manual \<and> t = Now rt - startedAt ctr) \<and>
         (rm (Status e) False (Now rt - startedAt ctr) = (True, wait, None) \<longrightarrow>
            State (cells clnt' ! length (cells clnt)) = StateRestart \<and>
            q clnt' = q clnt @ [(Id' e, Closure_event (length (cells clnt)) e)] \<and>
            hd (run_closure rt clnt' (Closure_event (length (cells clnt)) e)) =
              Call_StateChanged (Id' e) (cells clnt' ! length (cells clnt)) \<and>
            restarting ctr' \<and>
            containers clnt' = containers clnt - {Id' e} \<and>
            goroutines clnt' = goroutines clnt @ [Goroutine_wait wait (length (cells clnt)) e] \<and>
            (\<forall>path. Call_RemoveAll path \<notin> set tr) \<and>
            waiter rt_w None (length (cells clnt)) e ctr' clnt' =
              (case start rt_w (ctr'\<lparr>restarting := False\<rparr>) clnt' of
                 (serr, ctr_s, clnt_s, tr_s) \<Rightarrow>
                   (ctr_s, clnt_s,
                    [Client_lock (containerID ctr')] @ tr_s @ [Client_unlock (containerID ctr')])) \<and>
            (case waiter rt_w (Some werr) (length (cells clnt)) e ctr' clnt' of
               (ctr_w, clnt_w, tr_w) \<Rightarrow>
                 \<not> restarting ctr_w \<and>
                 State (cells clnt_w ! length (cells clnt)) = StateExit \<and>
                 q clnt_w = q clnt' @ [(Id' e, Closure_exit (length (cells clnt)) e)] \<and>
                 hd (run_closure rt_w clnt_w (Closure_exit (length (cells clnt)) e)) =
                   Call_StateChanged (Id' e) (cells clnt_w ! length (cells clnt)) \<and>
                 tr_w = [Client_lock (containerID ctr')]
                        @ snd (clean rt_w (ctr'\<lparr>restarting := False\<rparr>))
                        @ (if werr \<noteq> ErrRestartCanceled rt_w then [Logrus_Error (Error werr)] else [])
                        @ [Client_unlock (containerID ctr')] \<and>
                 (\<forall>request. Call_CreateContainer request \<notin> set tr_w)))"
proof -
  obtain restart ch err where
    answer: "rm (Status e) False (Now rt - startedAt ctr) = (restart, ch, err)"
    by (cases "rm (Status e) False (Now rt - startedAt ctr)") auto
  note whole = handleEvent_exit_with_manager [OF assms(1,2,3) answer, of clnt]
  have no_restart_in_clean: "Call_ShouldRestart code manual t \<notin> set (snd (clean rt' c))"
    for code manual t rt' c
    using clean_effects by blast
  have no_create_in_clean: "Call_CreateContainer request \<notin> set (snd (clean rt' c))"
    for request rt' c
    using clean_effects by blast
  have consulted: "Call_ShouldRestart code manual t \<in> set tr \<longleftrightarrow>
      code = Status e \<and> \<not> manual \<and> t = Now rt - startedAt ctr" for code manual t
  proof (cases "err = None \<and> restart")
    case True
    with whole assms(4) have "tr = [Client_lock (containerID ctr),
             Call_ShouldRestart (Status e) False (Now rt - startedAt ctr),
             Client_unlock (containerID ctr)]"
      by simp
    then show ?thesis by auto
  next
    case False
    with whole assms(4) have "tr = [Client_lock (containerID ctr),
             Call_ShouldRestart (Status e) False (Now rt - startedAt ctr)]
            @ (case err of None \<Rightarrow> []
               | Some er \<Rightarrow> [Logrus_Warn (''container '' @ containerID ctr @ '' '' @ Error er)])
            @ snd (clean rt ctr) @ [Client_unlock (containerID ctr)]"
      by simp
    then show ?thesis
      using no_restart_in_clean [of code manual t rt ctr]
      by (cases err) auto
  qed
  have restarted: "State (cells clnt' ! length (cells clnt)) = StateRestart \<and>
            q clnt' = q clnt @ [(Id' e, Closure_event (length (cells clnt)) e)] \<and>
            hd (run_closure rt clnt' (Closure_event (length (cells clnt)) e)) =
              Call_StateChanged (Id' e) (cells clnt' ! length (cells clnt)) \<and>
            restarting ctr' \<and>
            containers clnt' = containers clnt - {Id' e} \<and>
            goroutines clnt' = goroutines clnt @ [Goroutine_wait wait (length (cells clnt)) e] \<and>
            (\<forall>path. Call_RemoveAll path \<notin> set tr) \<and>
            waiter rt_w None (length (cells clnt)) e ctr' clnt' =
              (case start rt_w (ctr'\<lparr>restarting := False\<rparr>) clnt' of
                 (serr, ctr_s, clnt_s, tr_s) \<Rightarrow>
                   (ctr_s, clnt_s,
                    [Client_lock (containerID ctr')] @ tr_s @ [Client_unlock (containerID ctr')])) \<and>
            (case waiter rt_w (Some werr) (length (cells clnt)) e ctr' clnt' of
               (ctr_w, clnt_w, tr_w) \<Rightarrow>
                 \<not> restarting ctr_w \<and>
                 State (cells clnt_w ! length (cells clnt)) = StateExit \<and>
                 q clnt_w = q clnt' @ [(Id' e, Closure_exit (length (cells clnt)) e)] \<and>
                 hd (run_closure rt_w clnt_w (Closure_exit (length (cells clnt)) e)) =
                   Call_StateChanged (Id' e) (cells clnt_w ! length (cells clnt)) \<and>
                 tr_w = [Client_lock (containerID ctr')]
                        @ snd (clean rt_w (ctr'\<lparr>restarting := False\<rparr>))
                        @ (if werr \<noteq> ErrRestartCanceled rt_w then [Logrus_Error (Error werr)] else [])
                        @ [Client_unlock (containerID ctr')] \<and>
                 (\<forall>request. Call_CreateContainer request \<notin> set tr_w))"
    if yes: "rm (Status e) False (Now rt - startedAt ctr) = (True, wait, None)"
  proof -
    from yes answer have "err = None \<and> restart" "ch = wait" by simp_all
    with whole assms(4) have
      ctr': "ctr' = ctr\<lparr>restarting := True\<rparr>" and
      clnt': "clnt' = clnt\<lparr>containers := containers clnt - {Id' e},
                 goroutines := goroutines clnt @ [Goroutine_wait wait (length (cells clnt)) e],
                 cells := cells clnt @
                   [\<lparr>State = StateRestart, Pid' = 0, ExitCode' = Status e, ProcessID = [],
                     OOMKilled = oom ctr\<rparr>],
                 q := q clnt @ [(Id' e, Closure_event (length (cells clnt)) e)]\<rparr>" and
      tr: "tr = [Client_lock (containerID ctr),
             Call_ShouldRestart (Status e) False (Now rt - startedAt ctr),
             Client_unlock (containerID ctr)]"
      by simp_all
    have now: "State (cells clnt' ! length (cells clnt)) = StateRestart"
      "q clnt' = q clnt @ [(Id' e, Closure_event (length (cells clnt)) e)]"
      "restarting ctr'" "containers clnt' = containers clnt - {Id' e}"
      "goroutines clnt' = goroutines clnt @ [Goroutine_wait wait (length (cells clnt)) e]"
      "\<forall>path. Call_RemoveAll path \<notin> set tr"
      unfolding ctr' clnt' tr by simp_all
    have delivered: "hd (run_closure rt clnt' (Closure_event (length (cells clnt)) e)) =
              Call_StateChanged (Id' e) (cells clnt' ! length (cells clnt))"
      by (simp add: deliver_def)
    have elapsed: "waiter rt_w None (length (cells clnt)) e ctr' clnt' =
              (case start rt_w (ctr'\<lparr>restarting := False\<rparr>) clnt' of
                 (serr, ctr_s, clnt_s, tr_s) \<Rightarrow>
                   (ctr_s, clnt_s,
                    [Client_lock (containerID ctr')] @ tr_s @ [Client_unlock (containerID ctr')]))"
      by (simp add: waiter_def Let_def)
    have len: "length (cells clnt) < length (cells clnt')"
      unfolding clnt' by simp
    have canceled: "waiter rt_w (Some werr) (length (cells clnt)) e ctr' clnt' =
        (ctr'\<lparr>restarting := False\<rparr>,
         clnt'\<lparr>cells := (cells clnt')[length (cells clnt) :=
                   (cells clnt' ! length (cells clnt))\<lparr>State := StateExit\<rparr>],
               q := q clnt' @ [(Id' e, Closure_exit (length (cells clnt)) e)]\<rparr>,
         [Client_lock (containerID ctr')] @ snd (clean rt_w (ctr'\<lparr>restarting := False\<rparr>))
         @ (if werr \<noteq> ErrRestartCanceled rt_w then [Logrus_Error (Error werr)] else [])
         @ [Client_unlock (containerID ctr')])"
      by (simp add: waiter_def Let_def)
    have after: "case waiter rt_w (Some werr) (length (cells clnt)) e ctr' clnt' of
               (ctr_w, clnt_w, tr_w) \<Rightarrow>
                 \<not> restarting ctr_w \<and>
                 State (cells clnt_w ! length (cells clnt)) = StateExit \<and>
                 q clnt_w = q clnt' @ [(Id' e, Closure_exit (length (cells clnt)) e)] \<and>
                 hd (run_closure rt_w clnt_w (Closure_exit (length (cells clnt)) e)) =
                   Call_StateChanged (Id' e) (cells clnt_w ! length (cells clnt)) \<and>
                 tr_w = [Client_lock (containerID ctr')]
                        @ snd (clean rt_w (ctr'\<lparr>restarting := False\<rparr>))
                        @ (if werr \<noteq> ErrRestartCanceled rt_w then [Logrus_Error (Error werr)] else [])
                        @ [Client_unlock (containerID ctr')] \<and>
                 (\<forall>request. Call_CreateContainer request \<notin> set tr_w)"
      unfolding canceled using len no_create_in_clean
      by (simp add: deliver_def)
    from now delivered elapsed after show ?thesis by blast
  qed
  from consulted restarted show ?thesis by blast
qed

theorem handleEvent_restart_and_waiter_witness:
  "(case handleEvent example_runtime (exit_event ''init'' 1) restarting_ctr example_client of
      (r, ctr', clnt', tr) \<Rightarrow>
        tr = [Client_lock ''c1'', Call_ShouldRestart 1 False 60, Client_unlock ''c1''] \<and>
        State (cells clnt' ! 0) = StateRestart \<and> restarting ctr' \<and> containers clnt' = {} \<and>
        goroutines clnt' = [Goroutine_wait 5 0 (exit_event ''init'' 1)] \<and>
        (case waiter example_runtime (Some (Errorf ''restart canceled'')) 0 (exit_event ''init'' 1)
                ctr' clnt' of
           (ctr_w, clnt_w, tr_w) \<Rightarrow>
             State (cells clnt_w ! 0) = StateExit \<and> \<not> restarting ctr_w \<and>
             tr_w = [Client_lock ''c1'', Call_Lstat ''/run/c1'', Call_RemoveAll ''/run/c1'',
                     Client_unlock ''c1'']))"
  using handleEvent_restart_and_waiter
    [where e = "exit_event ''init'' 1" and rt = example_runtime and ctr = restarting_ctr
       and rm = restart_always and clnt = example_client
       and r = "fst (handleEvent example_runtime (exit_event ''init'' 1) restarting_ctr example_client)"
       and ctr' = "fst (snd (handleEvent example_runtime (exit_event ''init'' 1) restarting_ctr example_client))"
       and clnt' = "fst (snd (snd (handleEvent example_runtime (exit_event ''init'' 1) restarting_ctr example_client)))"
       and tr = "snd (snd (snd (handleEvent example_runtime (exit_event ''init'' 1) restarting_ctr example_client)))"
       and wait = 5 and rt_w = example_runtime and werr = "Errorf ''restart canceled''"]
  by (simp add: handleEvent_def handleEvent_restart_def handleEvent_remove_def waiter_def clean_def
      runtime_defs split: prod.splits)


end
